theory Spec2Isabelle
  imports Main "HOL-Library.Word" "HOL-Library.Sublist"
begin

section \<open>JavaScript strings\<close>

text \<open>
  A JavaScript string is a sequence of UTF-16 code units; \<open>length\<close>, \<open>substring\<close>,
  \<open>replace\<close> with a non-unicode regular expression, \<open>split\<close> and \<open>trim\<close> all work on
  code units. A string is therefore modelled as a list of 16-bit words, and a string
  literal of the source is written \<open>str ''...''\<close>.
\<close>

type_synonym jschar = "16 word"
type_synonym jsstring = "jschar list"

definition str :: "string \<Rightarrow> jsstring" where
  "str s = map (\<lambda>c. of_char c) s"

text \<open>
  \<open>s.replace(/lit/g, rep)\<close> for a regular expression that is a non-empty literal
  \<open>pat\<close> (as at every call site below) and a replacement without \<open>$\<close> patterns: the
  matches are found left to right and do not overlap.
\<close>

fun replaceAll :: "jsstring \<Rightarrow> jsstring \<Rightarrow> jsstring \<Rightarrow> jsstring" where
  "replaceAll pat rep [] = []"
| "replaceAll pat rep (x # xs) =
     (if pat \<noteq> [] \<and> prefix pat (x # xs)
      then rep @ replaceAll pat rep (drop (length pat - 1) xs)
      else x # replaceAll pat rep xs)"

text \<open>\<open>s.includes(pat)\<close>: \<open>pat\<close> occurs in \<open>s\<close> as a contiguous substring.\<close>

fun includes_str :: "jsstring \<Rightarrow> jsstring \<Rightarrow> bool" where
  "includes_str [] pat = (pat = [])"
| "includes_str (x # xs) pat = (prefix pat (x # xs) \<or> includes_str xs pat)"

section \<open>markdownUtils\<close>

definition escapeLinkUrl :: "jsstring \<Rightarrow> jsstring" where
  "escapeLinkUrl url =
     (let url = replaceAll (str ''('') (str ''%28'') url;
          url = replaceAll (str '')'') (str ''%29'') url;
          url = replaceAll (str '' '') (str ''%20'') url
      in url)"

definition unescapeLinkUrl :: "jsstring \<Rightarrow> jsstring" where
  "unescapeLinkUrl url =
     (let url = replaceAll (str ''%28'') (str ''('') url;
          url = replaceAll (str ''%29'') (str '')'') url;
          url = replaceAll (str ''%20'') (str '' '') url
      in url)"

text \<open>
  \<open>titleFromBody\<close>. The line terminators are the characters \<open>.\<close> does not match; \<open>trim\<close>
  removes white space and line terminators (ECMAScript \<open>WhiteSpace\<close> and
  \<open>LineTerminator\<close>) from both ends.
\<close>

definition isLineTerminator :: "jschar \<Rightarrow> bool" where
  "isLineTerminator c = (c = 0x0A \<or> c = 0x0D \<or> c = 0x2028 \<or> c = 0x2029)"

definition isWhiteSpace :: "jschar \<Rightarrow> bool" where
  "isWhiteSpace c =
     (c = 0x09 \<or> c = 0x0B \<or> c = 0x0C \<or> c = 0x20 \<or> c = 0xA0 \<or> c = 0x1680
      \<or> (0x2000 \<le> c \<and> c \<le> 0x200A) \<or> c = 0x202F \<or> c = 0x205F \<or> c = 0x3000
      \<or> c = 0xFEFF \<or> isLineTerminator c)"

definition trim :: "jsstring \<Rightarrow> jsstring" where
  "trim s = rev (dropWhile isWhiteSpace (rev (dropWhile isWhiteSpace s)))"

text \<open>\<open>s.split(sep)\<close> for a separator of one code unit; the result is never empty.\<close>

fun split :: "jschar \<Rightarrow> jsstring \<Rightarrow> jsstring list" where
  "split sep [] = [[]]"
| "split sep (x # xs) =
     (if x = sep then [] # split sep xs
      else (case split sep xs of [] \<Rightarrow> [[x]] | l # ls \<Rightarrow> (x # l) # ls))"

text \<open>\<open>/^[# \n\t*`-]*/\<close>: the characters of the class; the match is the longest prefix.\<close>

definition isFilterChar :: "jschar \<Rightarrow> bool" where
  "isFilterChar c =
     (c = 0x23 \<or> c = 0x20 \<or> c = 0x0A \<or> c = 0x09 \<or> c = 0x2A \<or> c = 0x60 \<or> c = 0x2D)"

text \<open>
  The optional \<open>!\<close> that starts both link expressions. It is greedy, and without it the
  next character would have to be \<open>[\<close>, so backtracking never helps.
\<close>

definition optBang :: "jsstring \<Rightarrow> jsstring" where
  "optBang s = (case s of [] \<Rightarrow> [] | x # xs \<Rightarrow> if x = 0x21 then xs else s)"

text \<open>
  \<open>(.+?)\)\<close> at the start of \<open>s\<close>: one character that is no line terminator, then
  lazily further such characters up to the first \<open>)\<close>. Returns the group and the rest
  after the \<open>)\<close>.
\<close>

definition lazyDotPlusParen :: "jsstring \<Rightarrow> (jsstring \<times> jsstring) option" where
  "lazyDotPlusParen s =
     (case s of
        [] \<Rightarrow> None
      | c # s' \<Rightarrow>
          if isLineTerminator c then None
          else (let mid = takeWhile (\<lambda>x. x \<noteq> 0x29) s' in
                if list_all (\<lambda>x. \<not> isLineTerminator x) mid
                then (case dropWhile (\<lambda>x. x \<noteq> 0x29) s' of
                        [] \<Rightarrow> None
                      | _ # rest \<Rightarrow> Some (c # mid, rest))
                else None))"

text \<open>
  \<open>/!?\[([^\]]+?)\]\(.+?\)/\<close> at the start of \<open>s\<close>: group 1 and the rest after the
  match. The group is the run of characters other than \<open>]\<close> after the \<open>[\<close>; it must
  not be empty and must be followed by \<open>](\<close>.
\<close>

definition matchMdLink :: "jsstring \<Rightarrow> (jsstring \<times> jsstring) option" where
  "matchMdLink s =
     (case optBang s of
        [] \<Rightarrow> None
      | x # s2 \<Rightarrow>
          if x \<noteq> 0x5B then None
          else (let g = takeWhile (\<lambda>y. y \<noteq> 0x5D) s2 in
                if g = [] then None
                else (case dropWhile (\<lambda>y. y \<noteq> 0x5D) s2 of
                        _ # p # s4 \<Rightarrow>
                          if p = 0x28
                          then (case lazyDotPlusParen s4 of
                                  None \<Rightarrow> None
                                | Some (_, rest) \<Rightarrow> Some (g, rest))
                          else None
                      | _ \<Rightarrow> None)))"

text \<open>\<open>/!?\[\]\((.+?)\)/\<close> at the start of \<open>s\<close>.\<close>

definition matchEmptyMdLink :: "jsstring \<Rightarrow> (jsstring \<times> jsstring) option" where
  "matchEmptyMdLink s =
     (case optBang s of
        a # b # c # s4 \<Rightarrow>
          if a = 0x5B \<and> b = 0x5D \<and> c = 0x28 then lazyDotPlusParen s4 else None
      | _ \<Rightarrow> None)"

text \<open>
  \<open>s.replace(re, '$1')\<close> for a global expression given by its matcher \<open>m\<close>: at each
  position, left to right, a match is replaced by its group 1 and the scan goes on
  after the match. A match of the two expressions above is never empty, so the rest
  is shorter than the input; the test on the lengths records that for the termination
  proof.
\<close>

fun replaceGroup1 :: "(jsstring \<Rightarrow> (jsstring \<times> jsstring) option) \<Rightarrow> jsstring \<Rightarrow> jsstring" where
  "replaceGroup1 m [] = []"
| "replaceGroup1 m (x # xs) =
     (case m (x # xs) of
        None \<Rightarrow> x # replaceGroup1 m xs
      | Some (g, rest) \<Rightarrow>
          if length rest < length (x # xs) then g @ replaceGroup1 m rest
          else x # replaceGroup1 m xs)"

datatype jserror = TypeError

definition titleFromBody :: "jsstring \<Rightarrow> jserror + jsstring" where
  "titleFromBody body =
     (if body = [] then Inr []
      else (let lines = split 0x0A (trim body) in
            case lines of
              [] \<Rightarrow> Inl TypeError
            | l # _ \<Rightarrow>
                (let title = trim l in
                 Inr (take 80 (replaceGroup1 matchEmptyMdLink
                        (replaceGroup1 matchMdLink (dropWhile isFilterChar title)))))))"

text \<open>The first line of a string: what precedes its first line feed.\<close>

definition firstLine :: "jsstring \<Rightarrow> jsstring" where
  "firstLine s = takeWhile (\<lambda>c. c \<noteq> 0x0A) s"

text \<open>
  Auxiliary functions for the proofs about \<open>escapeLinkUrl\<close>: the percent sequence of
  an escaped character, and the string in which exactly the characters of \<open>cs\<close> are
  escaped.
\<close>

definition pct :: "jschar \<Rightarrow> jsstring" where
  "pct c = (if c = 0x28 then [0x25, 0x32, 0x38]
            else if c = 0x29 then [0x25, 0x32, 0x39] else [0x25, 0x32, 0x30])"

definition encChars :: "jschar list \<Rightarrow> jschar \<Rightarrow> jsstring" where
  "encChars cs c = (if c \<in> set cs then pct c else [c])"

definition encStr :: "jschar list \<Rightarrow> jsstring \<Rightarrow> jsstring" where
  "encStr cs u = concat (map (encChars cs) u)"

section \<open>The item routes of the server\<close>

subsection \<open>Errors and data\<close>

text \<open>
  The error classes of \<open>utils/errors\<close> that the routes throw or catch, each with its
  message (\<open>None\<close> for the default message); \<open>ErrorOther\<close> stands for every other
  exception (storage failure, file read failure, \<open>TypeError\<close>).
\<close>

datatype error =
    ErrorNotFound "jsstring option"
  | ErrorMethodNotAllowed "jsstring option"
  | ErrorForbidden "jsstring option"
  | ErrorOther jsstring

text \<open>\<open>error instanceof ErrorNotFound\<close>\<close>

fun isErrorNotFound :: "error \<Rightarrow> bool" where
  "isErrorNotFound (ErrorNotFound _) = True"
| "isErrorNotFound _ = False"

type_synonym uuid = jsstring
type_synonym bytes = "8 word list"

datatype AclAction = Create | Read | Update | Delete | List

record user =
  user_id :: uuid

text \<open>The fields of an item (section 3 of the specification).\<close>

record item =
  item_id :: uuid
  name :: jsstring
  owner_id :: uuid
  parent_id :: "uuid option"
  jop_share_id :: "jsstring option"
  content :: bytes
  content_size :: nat
  mime_type :: jsstring
  updated_time :: nat
  created_time :: nat

text \<open>
  The object literal \<open>{ jop_share_id: shareId }\<close>: an item of which only the share id
  is set.
\<close>

definition itemWithShareId :: "jsstring \<Rightarrow> item" where
  "itemWithShareId s =
     \<lparr>item_id = [], name = [], owner_id = [], parent_id = None, jop_share_id = Some s,
      content = [], content_size = 0, mime_type = [], updated_time = 0, created_time = 0\<rparr>"

record ItemSaveOption =
  shareId :: "jsstring option"

datatype ChangeType = ChangeCreate | ChangeUpdate | ChangeDelete

record change =
  change_id :: nat
  change_item_id :: uuid
  change_item_name :: jsstring
  change_type :: ChangeType
  change_owner_id :: uuid
  change_updated_time :: nat

record ChangePagination =
  delta_limit :: nat
  delta_cursor :: "jsstring option"

record PaginatedChanges =
  delta_items :: "change list"
  delta_next_cursor :: jsstring
  delta_has_more :: bool

record Pagination =
  page_limit :: nat
  page_order_field :: jsstring
  page_order_desc :: bool
  page_cursor :: "jsstring option"

record PaginatedItems =
  page_items :: "item list"
  page_has_more :: bool
  page_next_cursor :: "jsstring option"

record SubPath =
  path_id :: jsstring

record formFile =
  file_path :: jsstring

text \<open>The result of \<open>formParse\<close>: \<open>files.file\<close> is the uploaded file, if there is one.\<close>

record parsedBody =
  files_file :: "formFile option"

record response =
  response_body :: bytes
  response_type :: jsstring

text \<open>
  What the routes read of the request context: the session's user, the environment,
  the query parameters and the raw request.
\<close>

record AppContext =
  owner :: user
  env :: jsstring
  query :: "jsstring \<Rightarrow> jsstring option"
  req :: bytes

subsection \<open>The world a handler runs in\<close>

text \<open>
  A handler runs against the database, of some type \<open>'db\<close>, and the directory of
  temporary upload files. To state in which order a handler calls the models, every
  call of a model method or of a file operation is recorded, in order, in \<open>calls\<close>.
\<close>

datatype call =
    LoadByName uuid jsstring
  | LoadWithContent uuid
  | SerializedContent uuid
  | CheckIfAllowed user AclAction item
  | DeleteForUser uuid item
  | DeleteAll uuid
  | SaveFromRawContent user jsstring bytes ItemSaveOption
  | ChildrenOf uuid jsstring Pagination
  | Delta uuid ChangePagination
  | FormParse
  | ReadFile jsstring
  | SafeRemove jsstring

type_synonym files = "jsstring \<Rightarrow> bytes option"

record 'db world =
  db :: 'db
  tmpfiles :: files
  calls :: "call list"

text \<open>
  An asynchronous computation: it ends with a value or with a thrown error, and with
  a new world.
\<close>

type_synonym ('a, 'db) prog = "'db world \<Rightarrow> (error + 'a) \<times> 'db world"

definition ret :: "'a \<Rightarrow> ('a, 'db) prog" where
  "ret x = (\<lambda>w. (Inr x, w))"

definition throw :: "error \<Rightarrow> ('a, 'db) prog" where
  "throw e = (\<lambda>w. (Inl e, w))"

text \<open>\<open>const x = await p; f(x)\<close>\<close>

definition await :: "('a, 'db) prog \<Rightarrow> ('a \<Rightarrow> ('b, 'db) prog) \<Rightarrow> ('b, 'db) prog" where
  "await p f = (\<lambda>w. case p w of (Inl e, w') \<Rightarrow> (Inl e, w') | (Inr x, w') \<Rightarrow> f x w')"

text \<open>\<open>try { p } catch (error) { h(error) }\<close>\<close>

definition tryCatch :: "('a, 'db) prog \<Rightarrow> (error \<Rightarrow> ('a, 'db) prog) \<Rightarrow> ('a, 'db) prog" where
  "tryCatch p h = (\<lambda>w. case p w of (Inl e, w') \<Rightarrow> h e w' | (Inr x, w') \<Rightarrow> (Inr x, w'))"

text \<open>
  \<open>try { p } finally { fin }\<close>: \<open>fin\<close> runs on every exit of \<open>p\<close>; an error of \<open>fin\<close>
  replaces the outcome of \<open>p\<close>.
\<close>

definition tryFinally :: "('a, 'db) prog \<Rightarrow> (unit, 'db) prog \<Rightarrow> ('a, 'db) prog" where
  "tryFinally p fin =
     (\<lambda>w. case p w of
             (r, w') \<Rightarrow> (case fin w' of (Inl e, w'') \<Rightarrow> (Inl e, w'') | (Inr _, w'') \<Rightarrow> (r, w'')))"

definition logCall :: "call \<Rightarrow> 'db world \<Rightarrow> 'db world" where
  "logCall c w = w\<lparr>calls := calls w @ [c]\<rparr>"

text \<open>A model method that reads the database, one that writes it, and the same for files.\<close>

definition readDb :: "call \<Rightarrow> ('db \<Rightarrow> error + 'a) \<Rightarrow> ('a, 'db) prog" where
  "readDb c f = (\<lambda>w. (f (db w), logCall c w))"

definition writeDb :: "call \<Rightarrow> ('db \<Rightarrow> (error + 'a) \<times> 'db) \<Rightarrow> ('a, 'db) prog" where
  "writeDb c f = (\<lambda>w. case f (db w) of (r, d) \<Rightarrow> (r, logCall c (w\<lparr>db := d\<rparr>)))"

definition readFiles :: "call \<Rightarrow> (files \<Rightarrow> error + 'a) \<Rightarrow> ('a, 'db) prog" where
  "readFiles c f = (\<lambda>w. (f (tmpfiles w), logCall c w))"

definition writeFiles :: "call \<Rightarrow> (files \<Rightarrow> (error + 'a) \<times> files) \<Rightarrow> ('a, 'db) prog" where
  "writeFiles c f = (\<lambda>w. case f (tmpfiles w) of (r, fs) \<Rightarrow> (r, logCall c (w\<lparr>tmpfiles := fs\<rparr>)))"

subsection \<open>The models and utilities the routes call\<close>

text \<open>
  The methods of \<open>ItemModel\<close> and \<open>ChangeModel\<close> and the utilities that the route
  handlers call are defined outside the files verified here; the handlers take them as
  parameters. A method that only reads returns its result; one that writes returns
  the new database as well. Each may throw.
\<close>

record 'db models =
  pathToName :: "jsstring \<Rightarrow> jsstring"
  loadByName :: "uuid \<Rightarrow> jsstring \<Rightarrow> 'db \<Rightarrow> error + item option"
  loadWithContent :: "uuid \<Rightarrow> 'db \<Rightarrow> error + item option"
  serializedContent :: "uuid \<Rightarrow> 'db \<Rightarrow> error + bytes"
  checkIfAllowed :: "user \<Rightarrow> AclAction \<Rightarrow> item \<Rightarrow> 'db \<Rightarrow> error + unit"
  deleteForUser :: "uuid \<Rightarrow> item \<Rightarrow> 'db \<Rightarrow> (error + unit) \<times> 'db"
  deleteAll :: "uuid \<Rightarrow> 'db \<Rightarrow> (error + unit) \<times> 'db"
  saveFromRawContent ::
    "user \<Rightarrow> jsstring \<Rightarrow> bytes \<Rightarrow> ItemSaveOption \<Rightarrow> 'db \<Rightarrow> (error + item) \<times> 'db"
  toApiOutput :: "item \<Rightarrow> item"
  children :: "uuid \<Rightarrow> jsstring \<Rightarrow> Pagination \<Rightarrow> 'db \<Rightarrow> error + PaginatedItems"
  delta :: "uuid \<Rightarrow> ChangePagination \<Rightarrow> 'db \<Rightarrow> error + PaginatedChanges"
  requestPagination :: "(jsstring \<Rightarrow> jsstring option) \<Rightarrow> Pagination"
  requestDeltaPagination :: "(jsstring \<Rightarrow> jsstring option) \<Rightarrow> ChangePagination"
  formParse :: "bytes \<Rightarrow> files \<Rightarrow> (error + parsedBody option) \<times> files"
  readFile :: "jsstring \<Rightarrow> files \<Rightarrow> error + bytes"

text \<open>
  Modelled from the spec: \<open>safeRemove\<close> of \<open>utils/fileUtils\<close>, which is defined outside
  the files verified here. Section 6 names it a path-safe temporary-file remover: it
  removes the file and does not throw.
\<close>

definition safeRemove :: "jsstring \<Rightarrow> files \<Rightarrow> (error + unit) \<times> files" where
  "safeRemove p fs = (Inr (), fs(p := None))"

text \<open>
  Modelled from the spec: \<open>respondWithItemContent\<close> of \<open>utils/routeUtils\<close>, which is
  defined outside the files verified here. Section 6: the response carries the raw bytes
  with the item's content type.
\<close>

definition respondWithItemContent :: "item \<Rightarrow> bytes \<Rightarrow> response" where
  "respondWithItemContent it c = \<lparr>response_body = c, response_type = mime_type it\<rparr>"

subsection \<open>The API routes (\<open>routes/api/items\<close>)\<close>

text \<open>
  \<open>itemFromPath\<close>: the result is \<open>None\<close> for \<open>null\<close>, which only a call with
  \<open>mustExists = false\<close> returns.
\<close>

definition itemFromPath ::
  "uuid \<Rightarrow> 'db models \<Rightarrow> SubPath \<Rightarrow> bool \<Rightarrow> (item option, 'db) prog" where
  "itemFromPath userId itemModel path mustExists =
     (let name = pathToName itemModel (path_id path) in
      await (readDb (LoadByName userId name) (loadByName itemModel userId name)) (\<lambda>item.
        if mustExists \<and> item = None
        then throw (ErrorNotFound (Some (str ''Not found: '' @ path_id path)))
        else ret item))"

text \<open>
  Reading a field of the item that \<open>itemFromPath\<close> returned. The handlers call it
  with \<open>mustExists = true\<close>, so the item is never \<open>null\<close> there; the model keeps
  the case as the \<open>TypeError\<close> that JavaScript would throw.
\<close>

definition nonNull :: "item option \<Rightarrow> (item \<Rightarrow> ('a, 'db) prog) \<Rightarrow> ('a, 'db) prog" where
  "nonNull item f = (case item of None \<Rightarrow> throw (ErrorOther (str ''TypeError'')) | Some it \<Rightarrow> f it)"

text \<open>\<open>router.get('api/items/:id')\<close>\<close>

definition api_get_item :: "'db models \<Rightarrow> SubPath \<Rightarrow> AppContext \<Rightarrow> (item, 'db) prog" where
  "api_get_item models path ctx =
     await (itemFromPath (user_id (owner ctx)) models path True) (\<lambda>item.
       nonNull item (\<lambda>it. ret (toApiOutput models it)))"

text \<open>\<open>router.del('api/items/:id')\<close>\<close>

definition api_del_item :: "'db models \<Rightarrow> SubPath \<Rightarrow> AppContext \<Rightarrow> (unit, 'db) prog" where
  "api_del_item models path ctx =
     tryCatch
       (if path_id path = str ''root'' \<or> path_id path = str ''root:/:''
        then (if env ctx \<noteq> str ''dev''
              then throw (ErrorMethodNotAllowed (Some (str ''Deleting the root is not allowed'')))
              else writeDb (DeleteAll (user_id (owner ctx))) (deleteAll models (user_id (owner ctx))))
        else await (itemFromPath (user_id (owner ctx)) models path True) (\<lambda>item.
               nonNull item (\<lambda>it.
                 await (readDb (CheckIfAllowed (owner ctx) Delete it)
                          (checkIfAllowed models (owner ctx) Delete it)) (\<lambda>_.
                   writeDb (DeleteForUser (user_id (owner ctx)) it)
                     (deleteForUser models (user_id (owner ctx)) it)))))
       (\<lambda>error. if isErrorNotFound error then ret () else throw error)"

text \<open>\<open>router.get('api/items/:id/content')\<close>\<close>

definition api_get_item_content ::
  "'db models \<Rightarrow> SubPath \<Rightarrow> AppContext \<Rightarrow> (response, 'db) prog" where
  "api_get_item_content models path ctx =
     await (itemFromPath (user_id (owner ctx)) models path True) (\<lambda>item.
       nonNull item (\<lambda>it.
         await (readDb (SerializedContent (item_id it)) (serializedContent models (item_id it)))
           (\<lambda>serializedContent. ret (respondWithItemContent it serializedContent))))"

text \<open>
  \<open>router.put('api/items/:id/content')\<close>. A string is truthy when it is neither
  absent nor empty: \<open>filePath\<close> and the query parameter \<open>share_id\<close> are tested so.
\<close>

definition truthy :: "jsstring option \<Rightarrow> bool" where
  "truthy v = (case v of None \<Rightarrow> False | Some s \<Rightarrow> s \<noteq> [])"

definition filePathOf :: "parsedBody option \<Rightarrow> jsstring option" where
  "filePathOf parsedBody =
     (case parsedBody of
        None \<Rightarrow> None
      | Some b \<Rightarrow> (case files_file b of None \<Rightarrow> None | Some f \<Rightarrow> Some (file_path f)))"

definition api_put_item_content ::
  "'db models \<Rightarrow> SubPath \<Rightarrow> AppContext \<Rightarrow> (item, 'db) prog" where
  "api_put_item_content models path ctx =
     (let name = pathToName models (path_id path) in
      await (writeFiles FormParse (formParse models (req ctx))) (\<lambda>parsedBody.
        let filePath = filePathOf parsedBody in
        tryFinally
          (await (case filePath of
                    None \<Rightarrow> ret []
                  | Some p \<Rightarrow> if p \<noteq> [] then readFiles (ReadFile p) (readFile models p) else ret [])
             (\<lambda>buffer.
               await (case query ctx (str ''share_id'') of
                        None \<Rightarrow> ret \<lparr>shareId = None\<rparr>
                      | Some sid \<Rightarrow>
                          if sid \<noteq> []
                          then await (readDb (CheckIfAllowed (owner ctx) Create (itemWithShareId sid))
                                        (checkIfAllowed models (owner ctx) Create (itemWithShareId sid)))
                                 (\<lambda>_. ret \<lparr>shareId = Some sid\<rparr>)
                          else ret \<lparr>shareId = None\<rparr>)
                 (\<lambda>saveOptions.
                   await (writeDb (SaveFromRawContent (owner ctx) name buffer saveOptions)
                            (saveFromRawContent models (owner ctx) name buffer saveOptions))
                     (\<lambda>item. ret (toApiOutput models item)))))
          (case filePath of
             None \<Rightarrow> ret ()
           | Some p \<Rightarrow> if p \<noteq> [] then writeFiles (SafeRemove p) (safeRemove p) else ret ())))"

text \<open>\<open>router.get('api/items/:id/delta')\<close>\<close>

definition api_get_item_delta ::
  "'db models \<Rightarrow> SubPath \<Rightarrow> AppContext \<Rightarrow> (PaginatedChanges, 'db) prog" where
  "api_get_item_delta models path ctx =
     readDb (Delta (user_id (owner ctx)) (requestDeltaPagination models (query ctx)))
       (delta models (user_id (owner ctx)) (requestDeltaPagination models (query ctx)))"

text \<open>\<open>router.get('api/items/:id/children')\<close>\<close>

definition api_get_item_children ::
  "'db models \<Rightarrow> SubPath \<Rightarrow> AppContext \<Rightarrow> (PaginatedItems, 'db) prog" where
  "api_get_item_children models path ctx =
     (let parentName = pathToName models (path_id path) in
      readDb (ChildrenOf (user_id (owner ctx)) parentName (requestPagination models (query ctx)))
        (children models (user_id (owner ctx)) parentName (requestPagination models (query ctx))))"

subsection \<open>The web route that serves content (\<open>routes/index/items\<close>)\<close>

text \<open>\<open>router.get('items/:id/content')\<close>\<close>

definition web_get_item_content ::
  "'db models \<Rightarrow> SubPath \<Rightarrow> AppContext \<Rightarrow> (response, 'db) prog" where
  "web_get_item_content models path ctx =
     await (readDb (LoadWithContent (path_id path)) (loadWithContent models (path_id path)))
       (\<lambda>item. case item of
                  None \<Rightarrow> throw (ErrorNotFound None)
                | Some it \<Rightarrow> ret (respondWithItemContent it (content it)))"

text \<open>
  The tenant in whose name a call reaches the models, for the calls that take one;
  the others address an item by its id.
\<close>

fun callTenant :: "call \<Rightarrow> uuid option" where
  "callTenant (LoadByName u _) = Some u"
| "callTenant (CheckIfAllowed u _ _) = Some (user_id u)"
| "callTenant (DeleteForUser u _) = Some u"
| "callTenant (DeleteAll u) = Some u"
| "callTenant (SaveFromRawContent u _ _ _) = Some (user_id u)"
| "callTenant (ChildrenOf u _ _) = Some u"
| "callTenant (Delta u _) = Some u"
| "callTenant _ = None"

fun isCheck :: "call \<Rightarrow> bool" where
  "isCheck (CheckIfAllowed _ _ _) = True"
| "isCheck _ = False"

fun isMutation :: "call \<Rightarrow> bool" where
  "isMutation (DeleteForUser _ _) = True"
| "isMutation (DeleteAll _) = True"
| "isMutation (SaveFromRawContent _ _ _ _) = True"
| "isMutation _ = False"

text \<open>The calls a handler has added to the record of calls.\<close>

definition newCalls :: "'db world \<Rightarrow> 'db world \<Rightarrow> call list" where
  "newCalls w w' = drop (length (calls w)) (calls w')"

text \<open>
  \<open>checkedBefore chk cs\<close>: in the sequence of calls \<open>cs\<close> no mutating call happens
  before the call \<open>chk\<close> has been made.
\<close>

fun checkedBefore :: "call \<Rightarrow> call list \<Rightarrow> bool" where
  "checkedBefore chk [] = True"
| "checkedBefore chk (c # cs) = (c = chk \<or> (\<not> isMutation c \<and> checkedBefore chk cs))"

text \<open>\<open>uncheckedMutation cs\<close>: some mutating call of \<open>cs\<close> has no check call before it.\<close>

fun uncheckedMutation :: "call list \<Rightarrow> bool" where
  "uncheckedMutation [] = False"
| "uncheckedMutation (c # cs) = (isMutation c \<or> (\<not> isCheck c \<and> uncheckedMutation cs))"

subsection \<open>The item model and the change log of the specification\<close>

text \<open>
  \<open>ItemModel\<close> and \<open>ChangeModel\<close> are defined outside the files verified here. The
  definitions of this subsection are modelled from sections 3 and 4 of the
  specification, over a database that holds the items (each with its content), the
  change log, the clock and the generator of identifiers.
\<close>

record database =
  items :: "item list"
  changes :: "change list"
  now :: nat
  uuid_gen :: "nat \<Rightarrow> uuid"
  uuid_count :: nat

text \<open>
  Modelled from the spec: \<open>ItemModel.loadByName\<close>, the \<open>resolve(owner, path)\<close> of
  section 4.1: deterministic, case-sensitive, tenant-scoped; it never searches across
  tenants.
\<close>

definition resolve :: "uuid \<Rightarrow> jsstring \<Rightarrow> database \<Rightarrow> error + item option" where
  "resolve userId n d = Inr (find (\<lambda>i. owner_id i = userId \<and> name i = n) (items d))"

text \<open>
  Modelled from the spec: \<open>ItemModel.loadWithContent\<close>, which takes nothing but the
  identifier of the item: the item with that id, whoever owns it.
\<close>

definition loadById :: "uuid \<Rightarrow> database \<Rightarrow> error + item option" where
  "loadById i d = Inr (find (\<lambda>it. item_id it = i) (items d))"

text \<open>
  Modelled from the spec: \<open>ItemModel.serializedContent\<close>, the
  \<open>serialized_content(item_id)\<close> of section 4.1: the raw payload of the item.
\<close>

definition serialized_content :: "uuid \<Rightarrow> database \<Rightarrow> error + bytes" where
  "serialized_content i d =
     (case find (\<lambda>it. item_id it = i) (items d) of
        None \<Rightarrow> Inl (ErrorNotFound None)
      | Some it \<Rightarrow> Inr (content it))"

text \<open>
  Modelled from the spec: \<open>ItemModel.toApiOutput\<close>; section 6: \<open>GET /api/items/:id\<close>
  returns the item metadata, no content.
\<close>

definition metadataOf :: "item \<Rightarrow> item" where
  "metadataOf it = it\<lparr>content := []\<rparr>"

text \<open>
  Modelled from the spec: the sequence numbers of section 4.3, strictly increasing;
  the next number is above every number in the log.
\<close>

definition nextChangeId :: "change list \<Rightarrow> nat" where
  "nextChangeId cs = Suc (fold max (map change_id cs) 0)"

text \<open>
  Modelled from the spec: \<open>append(owner, item, type)\<close> of section 4.3. The record gets
  the next sequence number; a record once written is never changed.
\<close>

definition appendChange :: "item \<Rightarrow> ChangeType \<Rightarrow> database \<Rightarrow> database" where
  "appendChange it ty d =
     d\<lparr>changes := changes d @
         [\<lparr>change_id = nextChangeId (changes d), change_item_id = item_id it,
           change_item_name = name it, change_type = ty, change_owner_id = owner_id it,
           change_updated_time = now d\<rparr>]\<rparr>"

text \<open>
  Modelled from the spec: \<open>ItemModel.saveFromRawContent\<close>, the
  \<open>create_or_replace(owner, path, content_bytes, options)\<close> of section 4.1: if an item
  with that path exists for the tenant, its content and metadata are overwritten and
  \<open>updated_time\<close> is bumped; otherwise the item is created. Exactly one Change record
  is appended. The parameter \<open>mime\<close> gives the content type of a path.
\<close>

definition create_or_replace ::
  "(jsstring \<Rightarrow> jsstring) \<Rightarrow> user \<Rightarrow> jsstring \<Rightarrow> bytes \<Rightarrow> ItemSaveOption \<Rightarrow> database
     \<Rightarrow> (error + item) \<times> database" where
  "create_or_replace mime u n b opts d =
     (case find (\<lambda>i. owner_id i = user_id u \<and> name i = n) (items d) of
        Some old \<Rightarrow>
          (let it = old\<lparr>content := b, content_size := length b, mime_type := mime n,
                       jop_share_id := (case shareId opts of None \<Rightarrow> jop_share_id old
                                        | Some s \<Rightarrow> Some s),
                       updated_time := now d\<rparr>
           in (Inr it,
               appendChange it ChangeUpdate
                 (d\<lparr>items := map (\<lambda>i. if owner_id i = user_id u \<and> name i = n then it else i)
                                (items d)\<rparr>)))
      | None \<Rightarrow>
          (let it = \<lparr>item_id = uuid_gen d (uuid_count d), name = n, owner_id = user_id u,
                     parent_id = None, jop_share_id = shareId opts, content = b,
                     content_size = length b, mime_type = mime n, updated_time = now d,
                     created_time = now d\<rparr>
           in (Inr it,
               appendChange it ChangeCreate
                 (d\<lparr>items := items d @ [it], uuid_count := Suc (uuid_count d)\<rparr>))))"

text \<open>
  Modelled from the spec: \<open>ItemModel.deleteAll\<close>, the full wipe of section 8: every item
  of the tenant is deleted, with one Change record for each.
\<close>

definition deleteAllItems :: "uuid \<Rightarrow> database \<Rightarrow> (error + unit) \<times> database" where
  "deleteAllItems userId d =
     (Inr (),
      fold (\<lambda>it. appendChange it ChangeDelete)
        (filter (\<lambda>i. owner_id i = userId) (items d))
        (d\<lparr>items := filter (\<lambda>i. owner_id i \<noteq> userId) (items d)\<rparr>))"

text \<open>
  Modelled from the spec: the compaction of section 4.3, for the retention horizon \<open>h\<close>.
  The records of one item that lie before the horizon are coalesced into their terminal
  record: a record is pruned when a later record of the same item is itself at or before
  the horizon. The surviving records keep their sequence numbers and their order.
\<close>

fun compactChanges :: "nat \<Rightarrow> change list \<Rightarrow> change list" where
  "compactChanges h [] = []"
| "compactChanges h (c # cs) =
     (if list_ex (\<lambda>c'. change_item_id c' = change_item_id c \<and> change_updated_time c' \<le> h) cs
      then compactChanges h cs
      else c # compactChanges h cs)"


text \<open>
  The models of the specification, for the methods modelled above; the other methods
  and utilities are those of \<open>base\<close>.
\<close>

definition specModels :: "(jsstring \<Rightarrow> jsstring) \<Rightarrow> database models \<Rightarrow> database models" where
  "specModels mime base =
     base\<lparr>loadByName := resolve, loadWithContent := loadById,
          serializedContent := serialized_content, toApiOutput := metadataOf,
          saveFromRawContent := create_or_replace mime, deleteAll := deleteAllItems\<rparr>"


definition idsUnique :: "database \<Rightarrow> bool" where
  "idsUnique d = distinct (map item_id (items d))"

subsection \<open>Example values\<close>

text \<open>
  Two tenants, an item of the first, and models whose remaining methods do nothing:
  the concrete inputs of the examples below.
\<close>

definition tenantA :: user where "tenantA = \<lparr>user_id = str ''A''\<rparr>"
definition tenantB :: user where "tenantB = \<lparr>user_id = str ''B''\<rparr>"

definition noteOfA :: item where
  "noteOfA =
     \<lparr>item_id = str ''i1'', name = str ''note.md'', owner_id = str ''A'', parent_id = None,
      jop_share_id = None, content = [104, 105], content_size = 2,
      mime_type = str ''text/markdown'', updated_time = 1, created_time = 1\<rparr>"

definition emptyDb :: database where
  "emptyDb = \<lparr>items = [], changes = [], now = 1, uuid_gen = (\<lambda>k. replicate (Suc k) 0x69),
              uuid_count = 0\<rparr>"

definition dbOfA :: database where
  "dbOfA = emptyDb\<lparr>items := [noteOfA]\<rparr>"

definition idleModels :: "database models" where
  "idleModels =
     \<lparr>pathToName = (\<lambda>p. p),
      loadByName = (\<lambda>_ _ _. Inr None),
      loadWithContent = (\<lambda>_ _. Inr None),
      serializedContent = (\<lambda>_ _. Inr []),
      checkIfAllowed = (\<lambda>_ _ _ _. Inr ()),
      deleteForUser = (\<lambda>_ _ d. (Inr (), d)),
      deleteAll = (\<lambda>_ d. (Inr (), d)),
      saveFromRawContent = (\<lambda>_ _ _ _ d. (Inl (ErrorOther []), d)),
      toApiOutput = (\<lambda>i. i),
      children = (\<lambda>_ _ _ _. Inr \<lparr>page_items = [], page_has_more = False, page_next_cursor = None\<rparr>),
      delta = (\<lambda>_ _ _. Inr \<lparr>delta_items = [], delta_next_cursor = [], delta_has_more = False\<rparr>),
      requestPagination = (\<lambda>_. \<lparr>page_limit = 100, page_order_field = [], page_order_desc = False,
                                 page_cursor = None\<rparr>),
      requestDeltaPagination = (\<lambda>q. \<lparr>delta_limit = 100, delta_cursor = q (str ''cursor'')\<rparr>),
      formParse = (\<lambda>_ fs. (Inr None, fs)),
      readFile = (\<lambda>p fs. case fs p of None \<Rightarrow> Inl (ErrorOther (str ''ENOENT'')) | Some b \<Rightarrow> Inr b)\<rparr>"

definition exampleMime :: "jsstring \<Rightarrow> jsstring" where
  "exampleMime n = str ''text/markdown''"

definition exampleModels :: "database models" where
  "exampleModels = specModels exampleMime idleModels"

definition worldOf :: "database \<Rightarrow> database world" where
  "worldOf d = \<lparr>db = d, tmpfiles = (\<lambda>_. None), calls = []\<rparr>"

definition contextOf :: "user \<Rightarrow> jsstring \<Rightarrow> AppContext" where
  "contextOf u e = \<lparr>owner = u, env = e, query = (\<lambda>_. None), req = []\<rparr>"

definition noteOfB :: item where
  "noteOfB =
     \<lparr>item_id = str ''i2'', name = str ''note.md'', owner_id = str ''B'', parent_id = None,
      jop_share_id = None, content = [121, 111], content_size = 2,
      mime_type = str ''text/markdown'', updated_time = 2, created_time = 2\<rparr>"

definition dbOfAB :: database where
  "dbOfAB = emptyDb\<lparr>items := [noteOfA, noteOfB]\<rparr>"

text \<open>Models whose access control denies everything, and models that receive an upload.\<close>

definition denyModels :: "database models" where
  "denyModels = exampleModels\<lparr>checkIfAllowed := (\<lambda>_ _ _ _. Inl (ErrorForbidden None))\<rparr>"

definition uploadBody :: "parsedBody option" where
  "uploadBody = Some \<lparr>files_file = Some \<lparr>file_path = str ''/tmp/u1''\<rparr>\<rparr>"

definition uploadModels :: "database models" where
  "uploadModels =
     exampleModels\<lparr>formParse := (\<lambda>_ fs. (Inr uploadBody, fs(str ''/tmp/u1'' \<mapsto> [104, 105])))\<rparr>"

definition withShareId :: "jsstring \<Rightarrow> AppContext \<Rightarrow> AppContext" where
  "withShareId s ctx = ctx\<lparr>query := (\<lambda>k. if k = str ''share_id'' then Some s else None)\<rparr>"

subsection \<open>Auxiliary predicates on the record of calls\<close>

text \<open>Every call of \<open>cs\<close> that names a tenant names the tenant \<open>u\<close>.\<close>

definition ownCalls :: "uuid \<Rightarrow> call list \<Rightarrow> bool" where
  "ownCalls u cs = list_all (\<lambda>c. callTenant c = None \<or> callTenant c = Some u) cs"

text \<open>
  \<open>emits P p\<close>: whatever the world, \<open>p\<close> only adds calls to the record, and each added
  call satisfies \<open>P\<close>. It serves to reason about the calls of a handler step by step.
\<close>

definition emits :: "(call \<Rightarrow> bool) \<Rightarrow> ('a, 'db) prog \<Rightarrow> bool" where
  "emits P p = (\<forall>w. \<exists>cs. calls (snd (p w)) = calls w @ cs \<and> list_all P cs)"

section \<open>Properties of markdownUtils\<close>

subsection \<open>Escaping and unescaping link URLs\<close>

lemma str_lits:
  "str ''('' = [0x28]" "str '')'' = [0x29]" "str '' '' = [0x20]"
  "str ''%28'' = [0x25, 0x32, 0x38]" "str ''%29'' = [0x25, 0x32, 0x39]"
  "str ''%20'' = [0x25, 0x32, 0x30]"
  by (simp_all add: str_def)

lemma encStr_Nil [simp]: "encStr cs [] = []"
  by (simp add: encStr_def)

lemma encStr_Cons: "encStr cs (c # u) = encChars cs c @ encStr cs u"
  by (simp add: encStr_def)

lemma replaceAll_single:
  "replaceAll [a] r s = concat (map (\<lambda>c. if c = a then r else [c]) s)"
  by (induction s) auto

text \<open>The three replacements of \<open>escapeLinkUrl\<close> amount to escaping each character on its own.\<close>

lemma escapeLinkUrl_encStr: "escapeLinkUrl u = encStr [0x28, 0x29, 0x20] u"
  unfolding escapeLinkUrl_def Let_def str_lits replaceAll_single encStr_def
  by (induction u) (auto simp: encChars_def pct_def)

text \<open>
  A percent sequence cannot start at a \<open>%\<close> of the original string unless the whole
  sequence is in the original: what follows the \<open>%\<close> in the escaped string starts with
  \<open>2\<close> and the digit only if the original does.
\<close>

lemma prefix_digits_encStr:
  assumes "prefix [0x32, d] (encStr cs u)" "set cs \<subseteq> {0x28, 0x29, 0x20}" "d \<noteq> 0x25"
  shows "prefix [0x32, d] u"
proof (cases u)
  case Nil
  with assms show ?thesis by simp
next
  case (Cons a r)
  show ?thesis
  proof (cases r)
    case Nil
    with Cons assms show ?thesis
      by (auto simp: encStr_Cons encChars_def pct_def split: if_splits)
  next
    case (Cons b r')
    with \<open>u = a # r\<close> assms show ?thesis
      by (auto simp: encStr_Cons encChars_def pct_def split: if_splits)
  qed
qed

text \<open>
  One replacement of \<open>unescapeLinkUrl\<close> undoes the escaping of one character \<open>c0\<close>, when
  the original string does not contain the percent sequence of \<open>c0\<close>.
\<close>

lemma unescape_step:
  assumes "\<not> includes_str u [0x25, 0x32, d]" "c0 \<notin> set cs"
    "set (c0 # cs) \<subseteq> {0x28, 0x29, 0x20}" "pct c0 = [0x25, 0x32, d]"
    "\<forall>c \<in> set cs. pct c \<noteq> pct c0"
  shows "replaceAll [0x25, 0x32, d] [c0] (encStr (c0 # cs) u) = encStr cs u"
  using assms(1)
proof (induction u)
  case Nil
  then show ?case by simp
next
  case (Cons c u)
  then have IH: "replaceAll [0x25, 0x32, d] [c0] (encStr (c0 # cs) u) = encStr cs u"
    and np: "\<not> prefix [0x25, 0x32, d] (c # u)" by auto
  consider (same) "c = c0" | (other) "c \<in> set cs" | (plain) "c \<noteq> c0" "c \<notin> set cs"
    by blast
  then show ?case
  proof cases
    case same
    then show ?thesis using IH assms(2,4) by (simp add: encStr_Cons encChars_def)
  next
    case other
    then have "c \<noteq> c0" using assms(2) by auto
    have "pct c \<noteq> [0x25, 0x32, d]" using other assms(4,5) by auto
    then obtain d' where d': "pct c = [0x25, 0x32, d']" "d' \<noteq> d"
      by (auto simp: pct_def split: if_splits)
    have "d' \<noteq> 0x25" using d' by (auto simp: pct_def split: if_splits)
    then show ?thesis using other \<open>c \<noteq> c0\<close> d' IH
      by (simp add: encStr_Cons encChars_def)
  next
    case plain
    show ?thesis
    proof (cases "c = 0x25")
      case True
      have "d \<noteq> 0x25" using assms(4) by (auto simp: pct_def split: if_splits)
      then have "\<not> prefix [0x32, d] (encStr (c0 # cs) u)"
        using prefix_digits_encStr[OF _ assms(3)] np True by auto
      then show ?thesis using plain True IH by (simp add: encStr_Cons encChars_def)
    next
      case False
      then show ?thesis using plain IH by (simp add: encStr_Cons encChars_def)
    qed
  qed
qed

text \<open>
  C9. For every URL string \<open>u\<close> that contains none of the substrings \<open>%28\<close>, \<open>%29\<close> and
  \<open>%20\<close>, unescaping the escaped string gives \<open>u\<close> back.
\<close>

theorem unescapeLinkUrl_escapeLinkUrl:
  assumes "\<not> includes_str u (str ''%28'')" "\<not> includes_str u (str ''%29'')"
    "\<not> includes_str u (str ''%20'')"
  shows "unescapeLinkUrl (escapeLinkUrl u) = u"
proof -
  have 1: "replaceAll [0x25, 0x32, 0x38] [0x28] (encStr [0x28, 0x29, 0x20] u)
             = encStr [0x29, 0x20] u"
    using assms(1) by (intro unescape_step) (auto simp: str_lits pct_def)
  have 2: "replaceAll [0x25, 0x32, 0x39] [0x29] (encStr [0x29, 0x20] u) = encStr [0x20] u"
    using assms(2) by (intro unescape_step) (auto simp: str_lits pct_def)
  have 3: "replaceAll [0x25, 0x32, 0x30] [0x20] (encStr [0x20] u) = encStr [] u"
    using assms(3) by (intro unescape_step) (auto simp: str_lits pct_def)
  have 4: "encStr [] u = u"
    by (induction u) (auto simp: encStr_Cons encChars_def)
  show ?thesis
    unfolding unescapeLinkUrl_def Let_def escapeLinkUrl_encStr str_lits 1 2 3 4 ..
qed

theorem unescapeLinkUrl_escapeLinkUrl_witness:
  "\<not> includes_str (str ''a (b)%'') (str ''%28'') \<and> \<not> includes_str (str ''a (b)%'') (str ''%29'')
   \<and> \<not> includes_str (str ''a (b)%'') (str ''%20'')
   \<and> unescapeLinkUrl (escapeLinkUrl (str ''a (b)%'')) = str ''a (b)%''"
proof -
  have h1: "\<not> includes_str (str ''a (b)%'') (str ''%28'')" by (simp add: str_def)
  have h2: "\<not> includes_str (str ''a (b)%'') (str ''%29'')" by (simp add: str_def)
  have h3: "\<not> includes_str (str ''a (b)%'') (str ''%20'')" by (simp add: str_def)
  show ?thesis
    by (intro conjI h1 h2 h3 unescapeLinkUrl_escapeLinkUrl [OF h1 h2 h3])
qed

text \<open>The round trip fails on a string that already contains a percent sequence.\<close>

lemma unescapeLinkUrl_escapeLinkUrl_percent:
  "unescapeLinkUrl (escapeLinkUrl (str ''%28'')) = str ''(''"
  by (simp add: str_def escapeLinkUrl_def unescapeLinkUrl_def)

subsection \<open>The title of a note body\<close>

text \<open>
  A match of either link expression consumes at least one character, so the test on
  the lengths in \<open>replaceGroup1\<close> always succeeds for them.
\<close>

lemma length_optBang: "length (optBang s) \<le> length s"
  by (simp add: optBang_def split: list.splits)

lemma lazyDotPlusParen_shorter:
  assumes "lazyDotPlusParen s = Some (g, rest)"
  shows "length rest < length s"
proof -
  from assms obtain c s' x where s: "s = c # s'"
    and d: "dropWhile (\<lambda>y. y \<noteq> 0x29) s' = x # rest"
    by (auto simp: lazyDotPlusParen_def Let_def split: list.splits if_splits)
  have "length (dropWhile (\<lambda>y. y \<noteq> 0x29) s') \<le> length s'"
    by (rule length_dropWhile_le)
  then show ?thesis using s d by simp
qed

lemma matchMdLink_shorter:
  assumes "matchMdLink s = Some (g, rest)"
  shows "length rest < length s"
proof -
  from assms obtain x s2 y p s4 g' where o: "optBang s = x # s2"
    and d: "dropWhile (\<lambda>y. y \<noteq> 0x5D) s2 = y # p # s4"
    and l: "lazyDotPlusParen s4 = Some (g', rest)"
    by (auto simp: matchMdLink_def Let_def split: list.splits if_splits option.splits)
  have "length (dropWhile (\<lambda>y. y \<noteq> 0x5D) s2) \<le> length s2"
    by (rule length_dropWhile_le)
  then have "length s4 < length (optBang s)" using o d by simp
  then show ?thesis
    using lazyDotPlusParen_shorter[OF l] length_optBang[of s] by simp
qed

lemma matchEmptyMdLink_shorter:
  assumes "matchEmptyMdLink s = Some (g, rest)"
  shows "length rest < length s"
proof -
  from assms obtain a b c s4 where o: "optBang s = a # b # c # s4"
    and l: "lazyDotPlusParen s4 = Some (g, rest)"
    by (auto simp: matchEmptyMdLink_def split: list.splits if_splits)
  then show ?thesis
    using lazyDotPlusParen_shorter[OF l] length_optBang[of s] by simp
qed

lemma split_not_Nil: "split sep s \<noteq> []"
  by (induction s) (auto split: list.splits)

lemma hd_split_firstLine: "hd (split 0x0A s) = firstLine s"
  using split_not_Nil[where sep="0x0A"]
  by (induction s) (auto simp: firstLine_def split: list.splits)

lemma titleFromBody_total: "\<exists>t. titleFromBody body = Inr t \<and> length t \<le> 80"
  using split_not_Nil[where sep="0x0A" and s="trim body"]
  by (auto simp: titleFromBody_def Let_def split: list.splits)

lemma titleFromBody_Nil: "titleFromBody [] = Inr []"
  by (simp add: titleFromBody_def)

lemma titleFromBody_firstLine:
  "body \<noteq> [] \<Longrightarrow> titleFromBody body =
     Inr (take 80 (replaceGroup1 matchEmptyMdLink
            (replaceGroup1 matchMdLink
               (dropWhile isFilterChar (trim (firstLine (trim body)))))))"
  using split_not_Nil[where sep="0x0A" and s="trim body"] hd_split_firstLine[where s="trim body"]
  by (auto simp: titleFromBody_def Let_def split: list.splits)

lemma titleFromBody_same_line:
  "firstLine (trim b1) = firstLine (trim b2) \<Longrightarrow> titleFromBody b1 = titleFromBody b2"
  by (cases "b1 = []"; cases "b2 = []")
     (simp_all add: titleFromBody_firstLine titleFromBody_Nil trim_def firstLine_def)

lemma hd_trim_not_white:
  assumes "trim s \<noteq> []"
  shows "\<not> isWhiteSpace (hd (trim s))"
proof -
  define d where "d = dropWhile isWhiteSpace s"
  have dne: "d \<noteq> []"
    using assms by (auto simp: trim_def d_def dest: set_dropWhileD)
  then have h: "\<not> isWhiteSpace (hd d)"
    unfolding d_def using hd_dropWhile by blast
  have "rev d = takeWhile isWhiteSpace (rev d) @ dropWhile isWhiteSpace (rev d)"
    by simp
  then have "d = rev (dropWhile isWhiteSpace (rev d)) @ rev (takeWhile isWhiteSpace (rev d))"
    by (metis rev_append rev_rev_ident)
  then have "d = trim s @ rev (takeWhile isWhiteSpace (rev d))"
    by (simp add: trim_def d_def)
  then have "hd d = hd (trim s)"
    using assms by (metis hd_append2)
  then show ?thesis using h by simp
qed

lemma firstLine_trim_not_blank:
  assumes "trim body \<noteq> []"
  shows "firstLine (trim body) \<noteq> [] \<and> \<not> isWhiteSpace (hd (firstLine (trim body)))"
proof -
  obtain x xs where t: "trim body = x # xs"
    using assms by (cases "trim body") auto
  have nw: "\<not> isWhiteSpace x"
    using hd_trim_not_white[OF assms] t by simp
  then have "x \<noteq> 0x0A"
    by (auto simp: isWhiteSpace_def isLineTerminator_def)
  then show ?thesis using t nw by (simp add: firstLine_def)
qed

text \<open>
  C10. For every body, \<open>titleFromBody\<close> returns a string of at most 80 code units; it
  returns the empty string for the empty body; and the result depends on the body only
  through the first line of the trimmed body, which does not start with a blank.
\<close>

theorem titleFromBody_bounded_first_line:
  "(\<exists>t. titleFromBody body = Inr t \<and> length t \<le> 80)
   \<and> titleFromBody [] = Inr []
   \<and> (\<forall>body'. firstLine (trim body') = firstLine (trim body)
         \<longrightarrow> titleFromBody body' = titleFromBody body)
   \<and> (trim body \<noteq> []
         \<longrightarrow> firstLine (trim body) \<noteq> [] \<and> \<not> isWhiteSpace (hd (firstLine (trim body))))"
  using titleFromBody_total titleFromBody_Nil titleFromBody_same_line firstLine_trim_not_blank
  by blast

theorem titleFromBody_bounded_first_line_witness:
  "trim (str ''  # Hi\<newline>x '') \<noteq> []
   \<and> firstLine (trim (str ''# Hi '')) = firstLine (trim (str ''  # Hi\<newline>x ''))
   \<and> titleFromBody (str ''# Hi '') = titleFromBody (str ''  # Hi\<newline>x '')
   \<and> firstLine (trim (str ''  # Hi\<newline>x '')) \<noteq> []
   \<and> \<not> isWhiteSpace (hd (firstLine (trim (str ''  # Hi\<newline>x ''))))"
proof -
  have h1: "trim (str ''  # Hi\<newline>x '') \<noteq> []"
    by (simp add: str_def trim_def isWhiteSpace_def isLineTerminator_def)
  have h2: "firstLine (trim (str ''# Hi '')) = firstLine (trim (str ''  # Hi\<newline>x ''))"
    by (simp add: str_def trim_def firstLine_def isWhiteSpace_def isLineTerminator_def)
  note t = titleFromBody_bounded_first_line [of "str ''  # Hi\<newline>x ''"]
  have a: "titleFromBody (str ''# Hi '') = titleFromBody (str ''  # Hi\<newline>x '')"
    using t h2 by blast
  have b: "firstLine (trim (str ''  # Hi\<newline>x '')) \<noteq> []
           \<and> \<not> isWhiteSpace (hd (firstLine (trim (str ''  # Hi\<newline>x ''))))"
    using t h1 by blast
  show ?thesis using h1 h2 a b by blast
qed

section \<open>Properties of the item routes\<close>

subsection \<open>Basic facts\<close>

lemmas prog_defs = ret_def throw_def await_def tryCatch_def tryFinally_def readDb_def
  writeDb_def readFiles_def writeFiles_def logCall_def nonNull_def newCalls_def

lemmas example_defs = exampleModels_def exampleMime_def idleModels_def denyModels_def uploadModels_def
  uploadBody_def contextOf_def withShareId_def worldOf_def emptyDb_def dbOfA_def dbOfAB_def
  noteOfA_def noteOfB_def tenantA_def tenantB_def

lemma specModels_simps [simp]:
  "loadByName (specModels mime base) = resolve"
  "loadWithContent (specModels mime base) = loadById"
  "serializedContent (specModels mime base) = serialized_content"
  "toApiOutput (specModels mime base) = metadataOf"
  "saveFromRawContent (specModels mime base) = create_or_replace mime"
  "deleteAll (specModels mime base) = deleteAllItems"
  "pathToName (specModels mime base) = pathToName base"
  "checkIfAllowed (specModels mime base) = checkIfAllowed base"
  "deleteForUser (specModels mime base) = deleteForUser base"
  "formParse (specModels mime base) = formParse base"
  "readFile (specModels mime base) = readFile base"
  by (simp_all add: specModels_def)

lemma items_appendChange [simp]: "items (appendChange it ty d) = items d"
  by (simp add: appendChange_def)

lemma items_fold_appendChange [simp]:
  "items (fold (\<lambda>it. appendChange it ty) xs d) = items d"
  by (induction xs arbitrary: d) simp_all


lemma find_Some_P: "find P xs = Some x \<Longrightarrow> P x \<and> x \<in> set xs"
  by (induction xs) (auto split: if_splits)



lemma find_owner_filter:
  "find (\<lambda>i. owner_id i = b \<and> Q i) xs = find Q (filter (\<lambda>i. owner_id i = b) xs)"
  by (induction xs) auto

lemma distinct_key_find:
  "distinct (map f xs) \<Longrightarrow> x \<in> set xs \<Longrightarrow> find (\<lambda>i. f i = f x) xs = Some x"
  by (induction xs) (auto simp: image_iff)


subsection \<open>The calls a handler makes\<close>

lemma emits_ret: "emits P (ret x)"
  by (simp add: emits_def ret_def)

lemma emits_throw: "emits P (throw e)"
  by (simp add: emits_def throw_def)

lemma emits_readDb: "P c \<Longrightarrow> emits P (readDb c f)"
  by (simp add: emits_def readDb_def logCall_def)

lemma emits_writeDb: "P c \<Longrightarrow> emits P (writeDb c f)"
  by (simp add: emits_def writeDb_def logCall_def split: prod.splits)

lemma emits_readFiles: "P c \<Longrightarrow> emits P (readFiles c f)"
  by (simp add: emits_def readFiles_def logCall_def)

lemma emits_writeFiles: "P c \<Longrightarrow> emits P (writeFiles c f)"
  by (simp add: emits_def writeFiles_def logCall_def split: prod.splits)

lemma emits_await:
  assumes "emits P p" "\<And>x. emits P (f x)"
  shows "emits P (await p f)"
  unfolding emits_def
proof
  fix w
  obtain r w' where pw: "p w = (r, w')" by (cases "p w")
  from assms(1) obtain cs where cs: "calls w' = calls w @ cs" "list_all P cs"
    unfolding emits_def using pw by (metis snd_conv)
  show "\<exists>cs. calls (snd (await p f w)) = calls w @ cs \<and> list_all P cs"
  proof (cases r)
    case (Inl e)
    then show ?thesis using pw cs by (simp add: await_def)
  next
    case (Inr x)
    from assms(2)[of x] obtain ds where "calls (snd (f x w')) = calls w' @ ds" "list_all P ds"
      unfolding emits_def by blast
    then show ?thesis using pw cs Inr by (simp add: await_def)
  qed
qed

lemma emits_tryCatch:
  assumes "emits P p" "\<And>e. emits P (h e)"
  shows "emits P (tryCatch p h)"
  unfolding emits_def
proof
  fix w
  obtain r w' where pw: "p w = (r, w')" by (cases "p w")
  from assms(1) obtain cs where cs: "calls w' = calls w @ cs" "list_all P cs"
    unfolding emits_def using pw by (metis snd_conv)
  show "\<exists>cs. calls (snd (tryCatch p h w)) = calls w @ cs \<and> list_all P cs"
  proof (cases r)
    case (Inr x)
    then show ?thesis using pw cs by (simp add: tryCatch_def)
  next
    case (Inl e)
    from assms(2)[of e] obtain ds where "calls (snd (h e w')) = calls w' @ ds" "list_all P ds"
      unfolding emits_def by blast
    then show ?thesis using pw cs Inl by (simp add: tryCatch_def)
  qed
qed

lemma emits_tryFinally:
  assumes "emits P p" "emits P fin"
  shows "emits P (tryFinally p fin)"
  unfolding emits_def
proof
  fix w
  obtain r w' where pw: "p w = (r, w')" by (cases "p w")
  from assms(1) obtain cs where cs: "calls w' = calls w @ cs" "list_all P cs"
    unfolding emits_def using pw by (metis snd_conv)
  obtain r' w'' where fw: "fin w' = (r', w'')" by (cases "fin w'")
  from assms(2) obtain ds where ds: "calls w'' = calls w' @ ds" "list_all P ds"
    unfolding emits_def using fw by (metis snd_conv)
  show "\<exists>cs. calls (snd (tryFinally p fin w)) = calls w @ cs \<and> list_all P cs"
    using pw fw cs ds by (cases r') (simp_all add: tryFinally_def)
qed

lemma emits_newCalls: "emits P p \<Longrightarrow> list_all P (newCalls w (snd (p w)))"
  unfolding emits_def newCalls_def by (metis append_eq_conv_conj)

lemmas emits_intros = emits_ret emits_throw emits_readDb emits_writeDb emits_readFiles
  emits_writeFiles emits_await emits_tryCatch emits_tryFinally

lemma own_calls_get_item:
  "ownCalls (user_id (owner ctx)) (newCalls w (snd (api_get_item m p ctx w)))"
  by (auto simp: ownCalls_def api_get_item_def itemFromPath_def prog_defs Let_def
        split: option.splits sum.splits prod.splits)

lemma own_calls_get_item_content:
  "ownCalls (user_id (owner ctx)) (newCalls w (snd (api_get_item_content m p ctx w)))"
  by (auto simp: ownCalls_def api_get_item_content_def itemFromPath_def prog_defs Let_def
        split: option.splits sum.splits prod.splits)

lemma own_calls_del_item:
  "ownCalls (user_id (owner ctx)) (newCalls w (snd (api_del_item m p ctx w)))"
  by (auto simp: ownCalls_def api_del_item_def itemFromPath_def prog_defs Let_def
        split: option.splits sum.splits prod.splits)

lemma emits_put_item_content:
  "emits (\<lambda>c. callTenant c = None \<or> callTenant c = Some (user_id (owner ctx)))
     (api_put_item_content m p ctx)"
  unfolding api_put_item_content_def Let_def
  by (auto intro!: emits_intros split: option.splits)

lemma own_calls_put_item_content:
  "ownCalls (user_id (owner ctx)) (newCalls w (snd (api_put_item_content m p ctx w)))"
  unfolding ownCalls_def by (rule emits_newCalls[OF emits_put_item_content])

lemma own_calls_get_item_children:
  "ownCalls (user_id (owner ctx)) (newCalls w (snd (api_get_item_children m p ctx w)))"
  by (auto simp: ownCalls_def api_get_item_children_def prog_defs Let_def
        split: option.splits sum.splits prod.splits)

subsection \<open>Tenant isolation\<close>

lemma itemFromPath_resolve:
  "fst (itemFromPath b (specModels mime base) p mx w) =
     (case find (\<lambda>i. owner_id i = b \<and> name i = pathToName base (path_id p)) (items (db w)) of
        None \<Rightarrow> if mx then Inl (ErrorNotFound (Some (str ''Not found: '' @ path_id p)))
                else Inr None
      | Some it \<Rightarrow> Inr (Some it))"
  by (simp add: itemFromPath_def resolve_def prog_defs Let_def split: option.splits)

lemma resolution_own_or_not_found:
  "case fst (itemFromPath b (specModels mime base) p mx w) of
     Inl e \<Rightarrow> isErrorNotFound e \<and> mx
   | Inr None \<Rightarrow> \<not> mx
   | Inr (Some it) \<Rightarrow> owner_id it = b \<and> name it = pathToName base (path_id p)
                         \<and> it \<in> set (items (db w))"
  by (auto simp: itemFromPath_resolve split: option.splits dest: find_Some_P)

lemma resolution_never_foreign:
  "owner_id it \<noteq> b \<Longrightarrow> fst (itemFromPath b (specModels mime base) p mx w) \<noteq> Inr (Some it)"
  using resolution_own_or_not_found[where b=b and mime=mime and base=base and p=p and mx=mx and w=w]
  by auto

lemma resolution_isolated:
  "filter (\<lambda>i. owner_id i = b) (items (db w1)) = filter (\<lambda>i. owner_id i = b) (items (db w2))
   \<Longrightarrow> fst (itemFromPath b (specModels mime base) p mx w1)
       = fst (itemFromPath b (specModels mime base) p mx w2)"
  by (simp add: itemFromPath_resolve find_owner_filter)

lemma get_item_own:
  assumes r: "fst (api_get_item (specModels mime base) p ctx w) = Inr x"
  shows "\<exists>it \<in> set (items (db w)). owner_id it = user_id (owner ctx) \<and> x = metadataOf it"
proof -
  let ?f = "find (\<lambda>i. owner_id i = user_id (owner ctx) \<and> name i = pathToName base (path_id p))
              (items (db w))"
  from r obtain it where f: "?f = Some it"
    by (cases ?f) (auto simp: api_get_item_def itemFromPath_def resolve_def prog_defs Let_def)
  then have "x = metadataOf it"
    using r by (simp add: api_get_item_def itemFromPath_def resolve_def prog_defs Let_def)
  then show ?thesis using find_Some_P[OF f] by blast
qed

lemma get_item_content_own:
  assumes u: "idsUnique (db w)"
    and r: "fst (api_get_item_content (specModels mime base) p ctx w) = Inr x"
  shows "\<exists>it \<in> set (items (db w)). owner_id it = user_id (owner ctx)
           \<and> x = respondWithItemContent it (content it)"
proof -
  let ?f = "find (\<lambda>i. owner_id i = user_id (owner ctx) \<and> name i = pathToName base (path_id p))
              (items (db w))"
  from r obtain it where f: "?f = Some it"
    by (cases ?f)
       (auto simp: api_get_item_content_def itemFromPath_def resolve_def prog_defs Let_def)
  then have own: "owner_id it = user_id (owner ctx)" and mem: "it \<in> set (items (db w))"
    using find_Some_P[OF f] by auto
  have "find (\<lambda>i. item_id i = item_id it) (items (db w)) = Some it"
    using u mem unfolding idsUnique_def by (rule distinct_key_find)
  then have "x = respondWithItemContent it (content it)"
    using r f by (simp add: api_get_item_content_def itemFromPath_def resolve_def
         serialized_content_def prog_defs Let_def)
  then show ?thesis using own mem by blast
qed

text \<open>
  C1. Path resolution for a tenant \<open>b\<close>, with the name lookup of the specification,
  returns an item of \<open>b\<close> or \<open>NotFound\<close>, never an item of another tenant; its result
  depends on the items of \<open>b\<close> only; what \<open>GET /api/items/:id\<close> and the content route
  return belongs to the session's user; and every call that the five API routes make
  in the name of a tenant is made in the name of the session's user.
\<close>

theorem tenant_isolation:
  "(case fst (itemFromPath b (specModels mime base) p mx w) of
      Inl e \<Rightarrow> isErrorNotFound e \<and> mx
    | Inr None \<Rightarrow> \<not> mx
    | Inr (Some it) \<Rightarrow> owner_id it = b \<and> name it = pathToName base (path_id p)
                          \<and> it \<in> set (items (db w)))
   \<and> (\<forall>it. owner_id it \<noteq> b \<longrightarrow>
          fst (itemFromPath b (specModels mime base) p mx w) \<noteq> Inr (Some it))
   \<and> (\<forall>w2. filter (\<lambda>i. owner_id i = b) (items (db w)) = filter (\<lambda>i. owner_id i = b) (items (db w2))
          \<longrightarrow> fst (itemFromPath b (specModels mime base) p mx w)
              = fst (itemFromPath b (specModels mime base) p mx w2))
   \<and> (\<forall>x. fst (api_get_item (specModels mime base) p ctx w) = Inr x \<longrightarrow>
          (\<exists>it \<in> set (items (db w)). owner_id it = user_id (owner ctx) \<and> x = metadataOf it))
   \<and> (\<forall>x. idsUnique (db w) \<and> fst (api_get_item_content (specModels mime base) p ctx w) = Inr x \<longrightarrow>
          (\<exists>it \<in> set (items (db w)). owner_id it = user_id (owner ctx)
             \<and> x = respondWithItemContent it (content it)))
   \<and> ownCalls (user_id (owner ctx)) (newCalls v (snd (api_get_item m p ctx v)))
   \<and> ownCalls (user_id (owner ctx)) (newCalls v (snd (api_get_item_content m p ctx v)))
   \<and> ownCalls (user_id (owner ctx)) (newCalls v (snd (api_del_item m p ctx v)))
   \<and> ownCalls (user_id (owner ctx)) (newCalls v (snd (api_put_item_content m p ctx v)))
   \<and> ownCalls (user_id (owner ctx)) (newCalls v (snd (api_get_item_children m p ctx v)))"
  apply (intro conjI allI impI)
           apply (rule resolution_own_or_not_found)
          apply (simp add: resolution_never_foreign)
         apply (erule resolution_isolated)
        apply (erule get_item_own)
       apply (erule conjE, erule (1) get_item_content_own)
      apply (rule own_calls_get_item)
     apply (rule own_calls_get_item_content)
    apply (rule own_calls_del_item)
   apply (rule own_calls_put_item_content)
  apply (rule own_calls_get_item_children)
  done

theorem tenant_isolation_witness:
  "owner_id noteOfA \<noteq> str ''B''
   \<and> fst (itemFromPath (str ''B'') exampleModels \<lparr>path_id = str ''note.md''\<rparr> True (worldOf dbOfAB))
       \<noteq> Inr (Some noteOfA)
   \<and> filter (\<lambda>i. owner_id i = str ''B'') (items (db (worldOf dbOfA)))
       = filter (\<lambda>i. owner_id i = str ''B'') (items (db (worldOf emptyDb)))
   \<and> fst (itemFromPath (str ''B'') exampleModels \<lparr>path_id = str ''note.md''\<rparr> True (worldOf dbOfA))
       = fst (itemFromPath (str ''B'') exampleModels \<lparr>path_id = str ''note.md''\<rparr> True (worldOf emptyDb))
   \<and> fst (itemFromPath (str ''B'') exampleModels \<lparr>path_id = str ''note.md''\<rparr> True (worldOf dbOfAB))
       = Inr (Some noteOfB)"
proof -
  note t = tenant_isolation [where b="str ''B''" and mime=exampleMime
      and base=idleModels and p="\<lparr>path_id = str ''note.md''\<rparr>" and mx=True
      and ctx="contextOf tenantB (str ''prod'')" and v="worldOf emptyDb" and m=idleModels,
      folded exampleModels_def]
  have h1: "owner_id noteOfA \<noteq> str ''B''"
    by (simp add: noteOfA_def str_def)
  have h2: "filter (\<lambda>i. owner_id i = str ''B'') (items (db (worldOf dbOfA)))
       = filter (\<lambda>i. owner_id i = str ''B'') (items (db (worldOf emptyDb)))"
    by (simp add: example_defs str_def)
  have a: "fst (itemFromPath (str ''B'') exampleModels \<lparr>path_id = str ''note.md''\<rparr> True
                  (worldOf dbOfAB)) \<noteq> Inr (Some noteOfA)"
    using t [where w="worldOf dbOfAB"] h1 by blast
  have b: "fst (itemFromPath (str ''B'') exampleModels \<lparr>path_id = str ''note.md''\<rparr> True (worldOf dbOfA))
       = fst (itemFromPath (str ''B'') exampleModels \<lparr>path_id = str ''note.md''\<rparr> True (worldOf emptyDb))"
    using t [where w="worldOf dbOfA"] h2 by blast
  have c: "fst (itemFromPath (str ''B'') exampleModels \<lparr>path_id = str ''note.md''\<rparr> True (worldOf dbOfAB))
       = Inr (Some noteOfB)"
    by (simp add: itemFromPath_def resolve_def specModels_def prog_defs example_defs str_def Let_def)
  show ?thesis using h1 h2 a b c by blast
qed

subsection \<open>The web content route\<close>

text \<open>
  C2. The web route \<open>items/:id/content\<close> loads the item by its raw id. Here the session
  is tenant B's and the id is that of an item of tenant A: the handler returns the
  content of A's item, and the only call it makes is \<open>loadWithContent\<close>; no access
  control check precedes the response.
\<close>

theorem web_content_without_check:
  "fst (web_get_item_content exampleModels \<lparr>path_id = str ''i1''\<rparr>
          (contextOf tenantB (str ''prod'')) (worldOf dbOfA))
     = Inr \<lparr>response_body = content noteOfA, response_type = mime_type noteOfA\<rparr>
   \<and> newCalls (worldOf dbOfA)
        (snd (web_get_item_content exampleModels \<lparr>path_id = str ''i1''\<rparr>
                (contextOf tenantB (str ''prod'')) (worldOf dbOfA)))
       = [LoadWithContent (str ''i1'')]
   \<and> owner_id noteOfA \<noteq> user_id (owner (contextOf tenantB (str ''prod'')))"
  by (simp add: web_get_item_content_def loadById_def respondWithItemContent_def
       specModels_def prog_defs example_defs str_def)

text \<open>The response of the web route does not depend on the session's user at all.\<close>

lemma web_content_ignores_owner:
  "web_get_item_content m p (ctx\<lparr>owner := u\<rparr>) w = web_get_item_content m p ctx w"
  by (simp add: web_get_item_content_def)

subsection \<open>Deleting the root\<close>

text \<open>
  C3. For the path ids \<open>root\<close> and \<open>root:/:\<close>, \<open>DELETE\<close> fails with \<open>MethodNotAllowed\<close>,
  leaving the world as it is, in every environment other than \<open>dev\<close> (so in
  production); in \<open>dev\<close> it succeeds and, with the \<open>deleteAll\<close> of the specification,
  leaves no item of the calling tenant and every item of the others. For any other
  path id the handler never calls \<open>deleteAll\<close>.
\<close>

theorem delete_root_only_in_dev:
  "(path_id p = str ''root'' \<or> path_id p = str ''root:/:'' \<longrightarrow>
      (env ctx \<noteq> str ''dev'' \<longrightarrow>
         api_del_item m p ctx w
           = (Inl (ErrorMethodNotAllowed (Some (str ''Deleting the root is not allowed''))), w))
    \<and> (env ctx = str ''dev'' \<longrightarrow>
         api_del_item m p ctx w
           = (case deleteAll m (user_id (owner ctx)) (db w) of
                (r, d) \<Rightarrow> (case r of Inl e \<Rightarrow> if isErrorNotFound e then Inr () else Inl e
                           | Inr _ \<Rightarrow> Inr (),
                          logCall (DeleteAll (user_id (owner ctx))) (w\<lparr>db := d\<rparr>)))
       \<and> fst (api_del_item (specModels mime base) p ctx v) = Inr ()
       \<and> items (db (snd (api_del_item (specModels mime base) p ctx v)))
           = filter (\<lambda>i. owner_id i \<noteq> user_id (owner ctx)) (items (db v))
       \<and> newCalls v (snd (api_del_item (specModels mime base) p ctx v))
           = [DeleteAll (user_id (owner ctx))]))
   \<and> (path_id p \<noteq> str ''root'' \<and> path_id p \<noteq> str ''root:/:'' \<longrightarrow>
        (\<forall>u. DeleteAll u \<notin> set (newCalls w (snd (api_del_item m p ctx w)))))"
  by (auto simp: api_del_item_def itemFromPath_def deleteAllItems_def prog_defs Let_def
           split: prod.splits sum.splits option.splits)

theorem delete_root_only_in_dev_witness:
  "api_del_item exampleModels \<lparr>path_id = str ''root''\<rparr> (contextOf tenantA (str ''prod''))
       (worldOf dbOfAB)
     = (Inl (ErrorMethodNotAllowed (Some (str ''Deleting the root is not allowed''))),
        worldOf dbOfAB)
   \<and> fst (api_del_item exampleModels \<lparr>path_id = str ''root:/:''\<rparr>
            (contextOf tenantA (str ''dev'')) (worldOf dbOfAB)) = Inr ()
   \<and> items (db (snd (api_del_item exampleModels \<lparr>path_id = str ''root:/:''\<rparr>
                   (contextOf tenantA (str ''dev'')) (worldOf dbOfAB)))) = [noteOfB]
   \<and> (\<forall>u. DeleteAll u \<notin> set (newCalls (worldOf dbOfAB)
              (snd (api_del_item exampleModels \<lparr>path_id = str ''note.md''\<rparr>
                      (contextOf tenantA (str ''dev'')) (worldOf dbOfAB)))))"
proof -
  have r1: "path_id \<lparr>path_id = str ''root''\<rparr> = str ''root''
            \<or> path_id \<lparr>path_id = str ''root''\<rparr> = str ''root:/:''"
    by simp
  have e1: "env (contextOf tenantA (str ''prod'')) \<noteq> str ''dev''"
    by (simp add: contextOf_def str_def)
  have r2: "path_id \<lparr>path_id = str ''root:/:''\<rparr> = str ''root''
            \<or> path_id \<lparr>path_id = str ''root:/:''\<rparr> = str ''root:/:''"
    by simp
  have e2: "env (contextOf tenantA (str ''dev'')) = str ''dev''"
    by (simp add: contextOf_def)
  have r3: "path_id \<lparr>path_id = str ''note.md''\<rparr> \<noteq> str ''root''
            \<and> path_id \<lparr>path_id = str ''note.md''\<rparr> \<noteq> str ''root:/:''"
    by (simp add: str_def)
  have f: "filter (\<lambda>i. owner_id i \<noteq> user_id (owner (contextOf tenantA (str ''dev''))))
             (items (db (worldOf dbOfAB))) = [noteOfB]"
    by (simp add: example_defs str_def)
  note a = delete_root_only_in_dev [where p="\<lparr>path_id = str ''root''\<rparr>"
      and ctx="contextOf tenantA (str ''prod'')" and m=exampleModels and w="worldOf dbOfAB",
      THEN conjunct1, rule_format, OF r1, THEN conjunct1, rule_format, OF e1]
  note b = delete_root_only_in_dev [where p="\<lparr>path_id = str ''root:/:''\<rparr>"
      and ctx="contextOf tenantA (str ''dev'')" and mime=exampleMime
      and base=idleModels and v="worldOf dbOfAB" and m=exampleModels and w="worldOf dbOfAB",
      THEN conjunct1, rule_format, OF r2, THEN conjunct2, rule_format, OF e2,
      THEN conjunct2, folded exampleModels_def]
  note c = delete_root_only_in_dev [where p="\<lparr>path_id = str ''note.md''\<rparr>"
      and ctx="contextOf tenantA (str ''dev'')" and m=exampleModels and w="worldOf dbOfAB",
      THEN conjunct2, rule_format, OF r3]
  show ?thesis using a b c f by simp
qed

subsection \<open>Deleting an item that does not exist\<close>

text \<open>
  C6. For a path id other than the root: when the name does not resolve to an item of
  the calling tenant, \<open>DELETE\<close> returns normally and the world is unchanged but for the
  record of the one \<open>loadByName\<close> call; an error other than \<open>NotFound\<close>, whether thrown
  by the lookup, by the access check or by the deletion, is thrown by the handler.
\<close>

theorem delete_missing_item_no_op:
  assumes "path_id p \<noteq> str ''root''" "path_id p \<noteq> str ''root:/:''"
  shows "(loadByName m (user_id (owner ctx)) (pathToName m (path_id p)) (db w) = Inr None
           \<longrightarrow> api_del_item m p ctx w
                 = (Inr (), logCall (LoadByName (user_id (owner ctx)) (pathToName m (path_id p))) w)
               \<and> db (snd (api_del_item m p ctx w)) = db w
               \<and> tmpfiles (snd (api_del_item m p ctx w)) = tmpfiles w)
    \<and> (\<forall>e. \<not> isErrorNotFound e \<longrightarrow>
          (loadByName m (user_id (owner ctx)) (pathToName m (path_id p)) (db w) = Inl e
             \<longrightarrow> fst (api_del_item m p ctx w) = Inl e)
        \<and> (\<forall>it. loadByName m (user_id (owner ctx)) (pathToName m (path_id p)) (db w)
                   = Inr (Some it)
                 \<and> checkIfAllowed m (owner ctx) Delete it (db w) = Inl e
             \<longrightarrow> fst (api_del_item m p ctx w) = Inl e)
        \<and> (\<forall>it. loadByName m (user_id (owner ctx)) (pathToName m (path_id p)) (db w)
                   = Inr (Some it)
                 \<and> checkIfAllowed m (owner ctx) Delete it (db w) = Inr ()
                 \<and> fst (deleteForUser m (user_id (owner ctx)) it (db w)) = Inl e
             \<longrightarrow> fst (api_del_item m p ctx w) = Inl e))"
  using assms
  by (auto simp: api_del_item_def itemFromPath_def prog_defs Let_def
           split: prod.splits sum.splits)

theorem delete_missing_item_no_op_witness:
  "path_id \<lparr>path_id = str ''note.md''\<rparr> \<noteq> str ''root''
   \<and> path_id \<lparr>path_id = str ''note.md''\<rparr> \<noteq> str ''root:/:''
   \<and> loadByName exampleModels (user_id (owner (contextOf tenantB (str ''prod''))))
        (pathToName exampleModels (path_id \<lparr>path_id = str ''note.md''\<rparr>)) (db (worldOf dbOfA))
       = Inr None
   \<and> fst (api_del_item exampleModels \<lparr>path_id = str ''note.md''\<rparr>
            (contextOf tenantB (str ''prod'')) (worldOf dbOfA)) = Inr ()
   \<and> db (snd (api_del_item exampleModels \<lparr>path_id = str ''note.md''\<rparr>
                (contextOf tenantB (str ''prod'')) (worldOf dbOfA))) = dbOfA
   \<and> fst (api_del_item denyModels \<lparr>path_id = str ''note.md''\<rparr>
            (contextOf tenantA (str ''prod'')) (worldOf dbOfA)) = Inl (ErrorForbidden None)"
proof -
  have n1: "path_id \<lparr>path_id = str ''note.md''\<rparr> \<noteq> str ''root''"
    and n2: "path_id \<lparr>path_id = str ''note.md''\<rparr> \<noteq> str ''root:/:''"
    by (simp_all add: str_def)
  have l: "loadByName exampleModels (user_id (owner (contextOf tenantB (str ''prod''))))
        (pathToName exampleModels (path_id \<lparr>path_id = str ''note.md''\<rparr>)) (db (worldOf dbOfA))
       = Inr None"
    by (simp add: resolve_def specModels_def example_defs str_def)
  note t = delete_missing_item_no_op [OF n1 n2, where m=exampleModels
      and ctx="contextOf tenantB (str ''prod'')" and w="worldOf dbOfA"]
  have a: "api_del_item exampleModels \<lparr>path_id = str ''note.md''\<rparr>
             (contextOf tenantB (str ''prod'')) (worldOf dbOfA)
           = (Inr (), logCall (LoadByName (user_id (owner (contextOf tenantB (str ''prod''))))
                (pathToName exampleModels (path_id \<lparr>path_id = str ''note.md''\<rparr>))) (worldOf dbOfA))"
    using t l by blast
  have b: "db (snd (api_del_item exampleModels \<lparr>path_id = str ''note.md''\<rparr>
                (contextOf tenantB (str ''prod'')) (worldOf dbOfA))) = dbOfA"
  proof -
    have "db (snd (api_del_item exampleModels \<lparr>path_id = str ''note.md''\<rparr>
                (contextOf tenantB (str ''prod'')) (worldOf dbOfA))) = db (worldOf dbOfA)"
      using t l by blast
    then show ?thesis by (simp add: worldOf_def)
  qed
  have d1: "loadByName denyModels (user_id (owner (contextOf tenantA (str ''prod''))))
        (pathToName denyModels (path_id \<lparr>path_id = str ''note.md''\<rparr>)) (db (worldOf dbOfA))
       = Inr (Some noteOfA)"
    by (simp add: resolve_def specModels_def example_defs str_def)
  have d2: "checkIfAllowed denyModels (owner (contextOf tenantA (str ''prod''))) Delete noteOfA
              (db (worldOf dbOfA)) = Inl (ErrorForbidden None)"
    by (simp add: denyModels_def)
  have d3: "\<not> isErrorNotFound (ErrorForbidden None)" by simp
  have c: "fst (api_del_item denyModels \<lparr>path_id = str ''note.md''\<rparr>
            (contextOf tenantA (str ''prod'')) (worldOf dbOfA)) = Inl (ErrorForbidden None)"
    using delete_missing_item_no_op [OF n1 n2, where m=denyModels
      and ctx="contextOf tenantA (str ''prod'')" and w="worldOf dbOfA"] d1 d2 d3 by blast
  show ?thesis using n1 n2 l a b c by simp
qed

subsection \<open>The temporary file of an upload\<close>

text \<open>
  C7. When \<open>formParse\<close> has returned a body with an uploaded file, \<open>PUT\<close> removes that
  file, whatever the file read, the access check and the save do, succeed or throw:
  after the handler the file is gone, the other temporary files are as \<open>formParse\<close>
  left them, and the removal is the handler's last call.
\<close>

theorem put_removes_temporary_file:
  assumes "formParse m (req ctx) (tmpfiles w) = (Inr body, fs)"
    and "filePathOf body = Some fp" and "fp \<noteq> []"
  shows "tmpfiles (snd (api_put_item_content m p ctx w)) fp = None
    \<and> tmpfiles (snd (api_put_item_content m p ctx w)) = fs(fp := None)
    \<and> last (calls (snd (api_put_item_content m p ctx w))) = SafeRemove fp"
  using assms
  by (auto simp: api_put_item_content_def safeRemove_def prog_defs Let_def
           split: prod.splits sum.splits option.splits)

theorem put_removes_temporary_file_witness:
  "formParse uploadModels (req (contextOf tenantA (str ''prod''))) (tmpfiles (worldOf emptyDb))
     = (Inr uploadBody, (\<lambda>_. None)(str ''/tmp/u1'' \<mapsto> [104, 105]))
   \<and> filePathOf uploadBody = Some (str ''/tmp/u1'') \<and> str ''/tmp/u1'' \<noteq> []
   \<and> tmpfiles (snd (api_put_item_content uploadModels \<lparr>path_id = str ''x.md''\<rparr>
                      (contextOf tenantA (str ''prod'')) (worldOf emptyDb))) (str ''/tmp/u1'') = None
   \<and> tmpfiles (snd (api_put_item_content
                      (uploadModels\<lparr>saveFromRawContent := (\<lambda>_ _ _ _ d. (Inl (ErrorOther []), d))\<rparr>)
                      \<lparr>path_id = str ''x.md''\<rparr>
                      (contextOf tenantA (str ''prod'')) (worldOf emptyDb))) (str ''/tmp/u1'') = None"
proof -
  have h1: "formParse uploadModels (req (contextOf tenantA (str ''prod'')))
              (tmpfiles (worldOf emptyDb))
            = (Inr uploadBody, (\<lambda>_. None)(str ''/tmp/u1'' \<mapsto> [104, 105]))"
    by (simp add: uploadModels_def worldOf_def)
  have h1': "formParse (uploadModels\<lparr>saveFromRawContent := (\<lambda>_ _ _ _ d. (Inl (ErrorOther []), d))\<rparr>)
              (req (contextOf tenantA (str ''prod''))) (tmpfiles (worldOf emptyDb))
            = (Inr uploadBody, (\<lambda>_. None)(str ''/tmp/u1'' \<mapsto> [104, 105]))"
    by (simp add: uploadModels_def worldOf_def)
  have h2: "filePathOf uploadBody = Some (str ''/tmp/u1'')"
    by (simp add: filePathOf_def uploadBody_def)
  have h3: "str ''/tmp/u1'' \<noteq> []"
    by (simp add: str_def)
  show ?thesis
    using h1 h2 h3
      put_removes_temporary_file [OF h1 h2 h3, where p="\<lparr>path_id = str ''x.md''\<rparr>"]
      put_removes_temporary_file [OF h1' h2 h3, where p="\<lparr>path_id = str ''x.md''\<rparr>"]
    by blast
qed

subsection \<open>The delta route\<close>

text \<open>
  C8. The delta route does not look at the path: two requests of the same user with
  the same query get the same result, the one of \<open>ChangeModel.delta\<close> for the user's id
  and the pagination derived from the query, whatever their \<open>:id\<close> segments are.
\<close>

theorem delta_ignores_path:
  assumes "owner ctx1 = owner ctx2" "query ctx1 = query ctx2"
  shows "api_get_item_delta m p1 ctx1 w = api_get_item_delta m p2 ctx2 w
    \<and> fst (api_get_item_delta m p1 ctx1 w)
        = delta m (user_id (owner ctx1)) (requestDeltaPagination m (query ctx1)) (db w)
    \<and> newCalls w (snd (api_get_item_delta m p1 ctx1 w))
        = [Delta (user_id (owner ctx1)) (requestDeltaPagination m (query ctx1))]"
  using assms by (simp add: api_get_item_delta_def prog_defs)

theorem delta_ignores_path_witness:
  "owner (contextOf tenantA (str ''prod'')) = owner (contextOf tenantA (str ''dev''))
   \<and> query (contextOf tenantA (str ''prod'')) = query (contextOf tenantA (str ''dev''))
   \<and> api_get_item_delta exampleModels \<lparr>path_id = str ''root:/a:''\<rparr>
        (contextOf tenantA (str ''prod'')) (worldOf dbOfA)
     = api_get_item_delta exampleModels \<lparr>path_id = str ''root:/b:''\<rparr>
        (contextOf tenantA (str ''dev'')) (worldOf dbOfA)"
proof -
  have h1: "owner (contextOf tenantA (str ''prod'')) = owner (contextOf tenantA (str ''dev''))"
    by (simp add: contextOf_def)
  have h2: "query (contextOf tenantA (str ''prod'')) = query (contextOf tenantA (str ''dev''))"
    by (simp add: contextOf_def)
  show ?thesis
    using h1 h2 delta_ignores_path [OF h1 h2, where m=exampleModels
        and ?p1.0="\<lparr>path_id = str ''root:/a:''\<rparr>" and ?p2.0="\<lparr>path_id = str ''root:/b:''\<rparr>"
        and w="worldOf dbOfA"]
    by blast
qed

subsection \<open>Access control checks before mutations\<close>

text \<open>
  The claim C5 as stated fails: a \<open>PUT\<close> without a \<open>share_id\<close>, and one whose \<open>share_id\<close>
  is present but empty, save the item without any access control check before, and so
  does the deletion of the root in the \<open>dev\<close> environment.
\<close>

theorem mutation_without_check:
  "uncheckedMutation
     (newCalls (worldOf emptyDb)
        (snd (api_put_item_content exampleModels \<lparr>path_id = str ''x.md''\<rparr>
                (contextOf tenantA (str ''prod'')) (worldOf emptyDb))))
   \<and> uncheckedMutation
     (newCalls (worldOf emptyDb)
        (snd (api_put_item_content exampleModels \<lparr>path_id = str ''x.md''\<rparr>
                (withShareId [] (contextOf tenantA (str ''prod''))) (worldOf emptyDb))))
   \<and> uncheckedMutation
     (newCalls (worldOf dbOfA)
        (snd (api_del_item exampleModels \<lparr>path_id = str ''root''\<rparr>
                (contextOf tenantA (str ''dev'')) (worldOf dbOfA))))"
  by (simp add: api_put_item_content_def api_del_item_def filePathOf_def create_or_replace_def
       deleteAllItems_def appendChange_def specModels_def prog_defs example_defs Let_def str_def)

text \<open>
  C5, amended. In \<open>DELETE\<close> for a path other than the root, \<open>deleteForUser\<close> is called
  only for the session's user and only after \<open>checkIfAllowed(owner, Delete, item)\<close> for
  the same item has returned; in \<open>PUT\<close> with a non-empty \<open>share_id\<close>, no mutation happens
  before \<open>checkIfAllowed(owner, Create, {jop_share_id})\<close> has been called. When the check
  throws, the database is unchanged and no mutating call is made.
\<close>

theorem checks_before_mutations:
  "(path_id p \<noteq> str ''root'' \<and> path_id p \<noteq> str ''root:/:'' \<longrightarrow>
      (\<forall>u it. DeleteForUser u it \<in> set (newCalls w (snd (api_del_item m p ctx w))) \<longrightarrow>
          u = user_id (owner ctx)
        \<and> checkedBefore (CheckIfAllowed (owner ctx) Delete it)
            (newCalls w (snd (api_del_item m p ctx w)))
        \<and> checkIfAllowed m (owner ctx) Delete it (db w) = Inr ())
    \<and> (\<forall>it e. loadByName m (user_id (owner ctx)) (pathToName m (path_id p)) (db w)
                 = Inr (Some it)
              \<and> checkIfAllowed m (owner ctx) Delete it (db w) = Inl e \<longrightarrow>
          db (snd (api_del_item m p ctx w)) = db w
        \<and> \<not> list_ex isMutation (newCalls w (snd (api_del_item m p ctx w)))))
   \<and> (\<forall>sid. query ctx (str ''share_id'') = Some sid \<and> sid \<noteq> [] \<longrightarrow>
        checkedBefore (CheckIfAllowed (owner ctx) Create (itemWithShareId sid))
          (newCalls w (snd (api_put_item_content m p ctx w)))
      \<and> (\<forall>e. checkIfAllowed m (owner ctx) Create (itemWithShareId sid) (db w) = Inl e \<longrightarrow>
            db (snd (api_put_item_content m p ctx w)) = db w
          \<and> \<not> list_ex isMutation (newCalls w (snd (api_put_item_content m p ctx w)))))"
proof (intro conjI impI allI)
  fix u it
  assume "path_id p \<noteq> str ''root'' \<and> path_id p \<noteq> str ''root:/:''"
    and "DeleteForUser u it \<in> set (newCalls w (snd (api_del_item m p ctx w)))"
  then show "u = user_id (owner ctx)"
    and "checkedBefore (CheckIfAllowed (owner ctx) Delete it)
           (newCalls w (snd (api_del_item m p ctx w)))"
    and "checkIfAllowed m (owner ctx) Delete it (db w) = Inr ()"
    by (auto simp: api_del_item_def itemFromPath_def prog_defs Let_def
           split: prod.splits sum.splits option.splits if_splits)
next
  fix it e
  assume "path_id p \<noteq> str ''root'' \<and> path_id p \<noteq> str ''root:/:''"
    and "loadByName m (user_id (owner ctx)) (pathToName m (path_id p)) (db w) = Inr (Some it)
         \<and> checkIfAllowed m (owner ctx) Delete it (db w) = Inl e"
  then show "db (snd (api_del_item m p ctx w)) = db w"
    and "\<not> list_ex isMutation (newCalls w (snd (api_del_item m p ctx w)))"
    by (auto simp: api_del_item_def itemFromPath_def prog_defs Let_def
           split: prod.splits sum.splits option.splits if_splits)
next
  fix sid
  assume a: "query ctx (str ''share_id'') = Some sid \<and> sid \<noteq> []"
  then show "checkedBefore (CheckIfAllowed (owner ctx) Create (itemWithShareId sid))
          (newCalls w (snd (api_put_item_content m p ctx w)))"
    by (auto simp: api_put_item_content_def prog_defs Let_def
           split: prod.splits sum.splits option.splits if_splits)
  fix e
  assume "checkIfAllowed m (owner ctx) Create (itemWithShareId sid) (db w) = Inl e"
  with a show "db (snd (api_put_item_content m p ctx w)) = db w"
    and "\<not> list_ex isMutation (newCalls w (snd (api_put_item_content m p ctx w)))"
    by (auto simp: api_put_item_content_def prog_defs Let_def
           split: prod.splits sum.splits option.splits if_splits)
qed

theorem checks_before_mutations_witness:
  "DeleteForUser (str ''A'') noteOfA
     \<in> set (newCalls (worldOf dbOfA)
         (snd (api_del_item exampleModels \<lparr>path_id = str ''note.md''\<rparr>
                 (contextOf tenantA (str ''prod'')) (worldOf dbOfA))))
   \<and> checkedBefore (CheckIfAllowed tenantA Delete noteOfA)
       (newCalls (worldOf dbOfA)
         (snd (api_del_item exampleModels \<lparr>path_id = str ''note.md''\<rparr>
                 (contextOf tenantA (str ''prod'')) (worldOf dbOfA))))
   \<and> db (snd (api_del_item denyModels \<lparr>path_id = str ''note.md''\<rparr>
                (contextOf tenantA (str ''prod'')) (worldOf dbOfA))) = dbOfA
   \<and> checkedBefore (CheckIfAllowed tenantA Create (itemWithShareId (str ''s1'')))
       (newCalls (worldOf emptyDb)
         (snd (api_put_item_content exampleModels \<lparr>path_id = str ''x.md''\<rparr>
                 (withShareId (str ''s1'') (contextOf tenantA (str ''prod''))) (worldOf emptyDb))))
   \<and> db (snd (api_put_item_content denyModels \<lparr>path_id = str ''x.md''\<rparr>
                (withShareId (str ''s1'') (contextOf tenantA (str ''prod''))) (worldOf emptyDb)))
       = emptyDb"
proof -
  have nr: "path_id \<lparr>path_id = str ''note.md''\<rparr> \<noteq> str ''root''
            \<and> path_id \<lparr>path_id = str ''note.md''\<rparr> \<noteq> str ''root:/:''"
    by (simp add: str_def)
  have own: "owner (contextOf tenantA (str ''prod'')) = tenantA"
    and own': "owner (withShareId (str ''s1'') (contextOf tenantA (str ''prod''))) = tenantA"
    by (simp_all add: contextOf_def withShareId_def)
  have h1: "DeleteForUser (str ''A'') noteOfA
     \<in> set (newCalls (worldOf dbOfA)
         (snd (api_del_item exampleModels \<lparr>path_id = str ''note.md''\<rparr>
                 (contextOf tenantA (str ''prod'')) (worldOf dbOfA))))"
    by (simp add: api_del_item_def itemFromPath_def resolve_def specModels_def prog_defs
          example_defs Let_def str_def)
  have a: "checkedBefore (CheckIfAllowed tenantA Delete noteOfA)
       (newCalls (worldOf dbOfA)
         (snd (api_del_item exampleModels \<lparr>path_id = str ''note.md''\<rparr>
                 (contextOf tenantA (str ''prod'')) (worldOf dbOfA))))"
    using checks_before_mutations [where p="\<lparr>path_id = str ''note.md''\<rparr>" and m=exampleModels
        and ctx="contextOf tenantA (str ''prod'')" and w="worldOf dbOfA"] nr h1
    unfolding own by blast
  have d1: "loadByName denyModels (user_id (owner (contextOf tenantA (str ''prod''))))
        (pathToName denyModels (path_id \<lparr>path_id = str ''note.md''\<rparr>)) (db (worldOf dbOfA))
       = Inr (Some noteOfA)
      \<and> checkIfAllowed denyModels (owner (contextOf tenantA (str ''prod''))) Delete noteOfA
              (db (worldOf dbOfA)) = Inl (ErrorForbidden None)"
    by (simp add: resolve_def specModels_def example_defs str_def)
  have "db (snd (api_del_item denyModels \<lparr>path_id = str ''note.md''\<rparr>
                (contextOf tenantA (str ''prod'')) (worldOf dbOfA))) = db (worldOf dbOfA)"
    using checks_before_mutations [where p="\<lparr>path_id = str ''note.md''\<rparr>" and m=denyModels
        and ctx="contextOf tenantA (str ''prod'')" and w="worldOf dbOfA"] nr d1
    by blast
  then have b: "db (snd (api_del_item denyModels \<lparr>path_id = str ''note.md''\<rparr>
                (contextOf tenantA (str ''prod'')) (worldOf dbOfA))) = dbOfA"
    by (simp add: worldOf_def)
  have q: "query (withShareId (str ''s1'') (contextOf tenantA (str ''prod''))) (str ''share_id'')
             = Some (str ''s1'') \<and> str ''s1'' \<noteq> []"
    by (simp add: withShareId_def str_def)
  have c: "checkedBefore (CheckIfAllowed tenantA Create (itemWithShareId (str ''s1'')))
       (newCalls (worldOf emptyDb)
         (snd (api_put_item_content exampleModels \<lparr>path_id = str ''x.md''\<rparr>
                 (withShareId (str ''s1'') (contextOf tenantA (str ''prod''))) (worldOf emptyDb))))"
    using checks_before_mutations [where p="\<lparr>path_id = str ''x.md''\<rparr>" and m=exampleModels
        and ctx="withShareId (str ''s1'') (contextOf tenantA (str ''prod''))"
        and w="worldOf emptyDb"] q
    unfolding own' by blast
  have d2: "checkIfAllowed denyModels (owner (withShareId (str ''s1'') (contextOf tenantA (str ''prod''))))
              Create (itemWithShareId (str ''s1'')) (db (worldOf emptyDb)) = Inl (ErrorForbidden None)"
    by (simp add: denyModels_def)
  have "db (snd (api_put_item_content denyModels \<lparr>path_id = str ''x.md''\<rparr>
                (withShareId (str ''s1'') (contextOf tenantA (str ''prod''))) (worldOf emptyDb)))
       = db (worldOf emptyDb)"
    using checks_before_mutations [where p="\<lparr>path_id = str ''x.md''\<rparr>" and m=denyModels
        and ctx="withShareId (str ''s1'') (contextOf tenantA (str ''prod''))"
        and w="worldOf emptyDb"] q d2
    by blast
  then have d: "db (snd (api_put_item_content denyModels \<lparr>path_id = str ''x.md''\<rparr>
                (withShareId (str ''s1'') (contextOf tenantA (str ''prod''))) (worldOf emptyDb)))
       = emptyDb"
    by (simp add: worldOf_def)
  show ?thesis using h1 a b c d by blast
qed

subsection \<open>Saving the same content twice\<close>







text \<open>
  Compaction keeps records of the log, and a record at or before the horizon that ends
  the log is the only record of its item to survive.
\<close>

lemma set_compactChanges: "set (compactChanges h cs) \<subseteq> set cs"
  by (induction cs) auto





end
